theory Spec2Isabelle
  imports Complex_Main
begin

section \<open>JavaScript values used by the router\<close>

text \<open>
  Strings are lists of code units. The model uses the 8-bit \<^typ>\<open>char\<close> of HOL, so it
  covers the strings whose code units are below 256; every comparison the router makes
  is on single code units, so nothing else about the encoding matters.
\<close>

definition slash :: char where
  "slash = CHR ''/''"

definition colon :: char where
  "colon = CHR '':''"

definition non_slash :: "char \<Rightarrow> bool" where
  "non_slash c = (c \<noteq> slash)"

text \<open>
  A plain object used as a dictionary is a map from property names to values (its own
  properties). \<open>obj[k] = v\<close> on an object created by \<open>{}\<close> stores an own property for
  every key but \<open>__proto__\<close>: that key reaches the accessor inherited from
  \<open>Object.prototype\<close>, whose setter ignores a value that is neither an object nor null,
  so the assignment of a string or of \<open>undefined\<close> leaves the object as it was.
\<close>

definition set_prop :: "(string \<rightharpoonup> 'v) \<Rightarrow> string \<Rightarrow> 'v \<Rightarrow> (string \<rightharpoonup> 'v)" where
  "set_prop obj k v = (if k = ''__proto__'' then obj else obj(k \<mapsto> v))"

section \<open>The route matcher\<close>

subsection \<open>Rewriting the pattern: \<open>pattern.replace(/:([^/]+)/g, ...)\<close>\<close>

text \<open>
  The global replace scans the pattern from the left. At a colon followed by at least
  one character other than a slash it takes the longest run of such characters as the
  parameter name, records it, and emits the text \<open>([^/]+)\<close>; the scan goes on after the
  run. Every other character is copied. The result is the pair of the rewritten text
  (\<open>regexPattern\<close>) and the recorded names (\<open>paramNames\<close>).
\<close>

definition group_text :: string where
  "group_text = ''([^/]+)''"

function replace_params :: "string \<Rightarrow> string \<times> string list" where
  "replace_params [] = ([], [])"
| "replace_params (c # cs) =
     (if c = colon \<and> takeWhile non_slash cs \<noteq> []
      then (case replace_params (dropWhile non_slash cs) of
              (rp, names) \<Rightarrow> (group_text @ rp, takeWhile non_slash cs # names))
      else (case replace_params cs of (rp, names) \<Rightarrow> (c # rp, names)))"
  by pat_completeness auto
termination
  by (relation "measure length") (auto simp: less_Suc_eq_le length_dropWhile_le)

definition regexPattern :: "string \<Rightarrow> string" where
  "regexPattern pattern = fst (replace_params pattern)"

definition paramNames :: "string \<Rightarrow> string list" where
  "paramNames pattern = snd (replace_params pattern)"

subsection \<open>The regular expression engine\<close>

text \<open>
  \<open>new RegExp('^' + regexPattern + '$')\<close> hands the rewritten text to the platform's
  regular expression engine. The model gives the semantics of the fragment the router
  itself produces from ordinary paths: the start and end anchors around a sequence of
  ordinary characters, the dot, and the group \<open>([^/]+)\<close>. A source text with any other
  syntax character (the backslash or one of \<open>^ $ * + ? ( ) [ ] { } |\<close>, anywhere else) is
  outside the fragment;
  there the result is whatever the platform's engine gives, which the model takes as the
  parameter \<open>ext\<close>: a syntax error raised by the constructor, no match, or a match with
  its captures (a capture that did not take part is \<open>undefined\<close>, here \<open>None\<close>).
\<close>

datatype rx_item = Lit char | Dot | Group

datatype rx_result = RxSyntaxError | RxNoMatch | RxMatch "string option list"

type_synonym rx_engine = "string \<Rightarrow> string \<Rightarrow> rx_result"

definition syntax_char :: "char \<Rightarrow> bool" where
  "syntax_char c = (c = CHR 0x5C \<or> c \<in> set ''^$.*+?()[]{}|'')"

definition line_terminator :: "char \<Rightarrow> bool" where
  "line_terminator c = (c = CHR 0x0A \<or> c = CHR 0x0D)"

fun rx_items :: "string \<Rightarrow> rx_item list option" where
  "rx_items [] = Some []"
| "rx_items (c # cs) =
     (if c = CHR ''('' then
        (if take 6 cs = ''[^/]+)'' then map_option (Cons Group) (rx_items (drop 6 cs))
         else None)
      else if c = CHR ''.'' then map_option (Cons Dot) (rx_items cs)
      else if syntax_char c then None
      else map_option (Cons (Lit c)) (rx_items cs))"

definition rx_parse :: "string \<Rightarrow> rx_item list option" where
  "rx_parse src =
     (case src of
        [] \<Rightarrow> None
      | c # rest \<Rightarrow>
          if c = CHR ''^'' \<and> rest \<noteq> [] \<and> last rest = CHR ''$''
          then rx_items (butlast rest) else None)"

text \<open>
  Matching is the engine's backtracking search. The group is greedy: it first takes the
  whole run of non-slash characters in front of it, and gives back one character at a
  time, down to one, until the rest of the expression matches; \<open>try_group\<close> is that
  loop, with the continuation \<open>cont\<close> for the rest of the expression. The result of a
  match is the list of the captured substrings, \<open>match[1], match[2], ...\<close>.
\<close>

fun try_group :: "(string \<Rightarrow> string list option) \<Rightarrow> string \<Rightarrow> nat \<Rightarrow> string list option" where
  "try_group cont s 0 = None"
| "try_group cont s (Suc k) =
     (case cont (drop (Suc k) s) of
        Some caps \<Rightarrow> Some (take (Suc k) s # caps)
      | None \<Rightarrow> try_group cont s k)"

primrec rx_match :: "rx_item list \<Rightarrow> string \<Rightarrow> string list option" where
  "rx_match [] = (\<lambda>s. if s = [] then Some [] else None)"
| "rx_match (it # rest) = (\<lambda>s.
     case it of
       Lit c \<Rightarrow> (case s of [] \<Rightarrow> None | x # xs \<Rightarrow> if x = c then rx_match rest xs else None)
     | Dot \<Rightarrow> (case s of [] \<Rightarrow> None
               | x # xs \<Rightarrow> if line_terminator x then None else rx_match rest xs)
     | Group \<Rightarrow> try_group (rx_match rest) s (length (takeWhile non_slash s)))"

definition RegExp_match :: "rx_engine \<Rightarrow> string \<Rightarrow> string \<Rightarrow> rx_result" where
  "RegExp_match ext src s =
     (case rx_parse src of
        None \<Rightarrow> ext src s
      | Some items \<Rightarrow>
          (case rx_match items s of
             None \<Rightarrow> RxNoMatch
           | Some caps \<Rightarrow> RxMatch (map Some caps)))"

subsection \<open>\<open>_matchRoute\<close>\<close>

text \<open>
  A failure of the dispatcher's own code: an exception raised by the platform (the
  \<open>RegExp\<close> or \<open>URL\<close> constructor, a call of something that is not a function, a
  property read on \<open>null\<close>), whose message text is the platform's, or an \<open>Error\<close> the
  code creates itself with the message it gives.
\<close>

datatype failure = SyntaxError | TypeError | Error string

type_synonym params = "string \<rightharpoonup> string option"

text \<open>
  \<open>match[i + 1]\<close>; an index beyond the array reads \<open>undefined\<close>.
\<close>

definition capture_at :: "string option list \<Rightarrow> nat \<Rightarrow> string option" where
  "capture_at caps i = (if i < length caps then caps ! i else None)"

text \<open>
  The loop \<open>for (let i = 0; i < paramNames.length; i++) params[paramNames[i]] = match[i + 1]\<close>.
\<close>

definition assign_params :: "string list \<Rightarrow> string option list \<Rightarrow> params" where
  "assign_params names caps =
     fold (\<lambda>i ps. set_prop ps (names ! i) (capture_at caps i)) [0..<length names] Map.empty"

text \<open>
  The result is \<open>Inl\<close> of the failure when the constructor raises, \<open>Inr None\<close> for
  \<open>null\<close>, and \<open>Inr (Some params)\<close> for \<open>{ params }\<close>.
\<close>

definition matchRoute :: "rx_engine \<Rightarrow> string \<Rightarrow> string \<Rightarrow> failure + params option" where
  "matchRoute ext pattern pathname =
     (case RegExp_match ext (''^'' @ regexPattern pattern @ ''$'') pathname of
        RxSyntaxError \<Rightarrow> Inl SyntaxError
      | RxNoMatch \<Rightarrow> Inr None
      | RxMatch caps \<Rightarrow> Inr (Some (assign_params (paramNames pattern) caps)))"

subsection \<open>The reference segment matcher\<close>

text \<open>
  The matcher as the specification words it, segment for segment: pattern and path are
  split at the slashes; a pattern segment of the form \<open>:name\<close> (a colon and a non-empty
  name) takes one non-empty path segment and binds the name to it; every other pattern
  segment must equal its path segment; both must have the same number of segments.
  The names are bound from left to right.
\<close>

fun split_slash :: "string \<Rightarrow> string list" where
  "split_slash [] = [[]]"
| "split_slash (c # cs) =
     (if c = slash then [] # split_slash cs
      else (case split_slash cs of [] \<Rightarrow> [[c]] | seg # segs \<Rightarrow> (c # seg) # segs))"

definition named_segment :: "string \<Rightarrow> bool" where
  "named_segment seg = (case seg of [] \<Rightarrow> False | c # name \<Rightarrow> c = colon \<and> name \<noteq> [])"

fun match_segments :: "string list \<Rightarrow> string list \<Rightarrow> (string \<times> string) list option" where
  "match_segments [] [] = Some []"
| "match_segments (p # ps) (s # ss) =
     (if named_segment p
      then (if s = [] then None else map_option (Cons (tl p, s)) (match_segments ps ss))
      else if p = s then match_segments ps ss else None)"
| "match_segments _ _ = None"

definition bind_all :: "(string \<times> string) list \<Rightarrow> params" where
  "bind_all bs = fold (\<lambda>(n, v) ps. ps(n \<mapsto> Some v)) bs Map.empty"

definition reference_match :: "string \<Rightarrow> string \<Rightarrow> params option" where
  "reference_match pattern path =
     map_option bind_all (match_segments (split_slash pattern) (split_slash path))"

text \<open>
  The patterns on which the two agree: every segment is either a named segment, or a
  literal segment that has no syntax character of the regular expression language and
  no colon except as its last character (a colon in front of more characters of the
  same segment starts a capture in the rewriting above); and no parameter is called
  \<open>__proto__\<close>.
\<close>

definition literal_segment :: "string \<Rightarrow> bool" where
  "literal_segment seg =
     (list_all (\<lambda>c. \<not> syntax_char c) seg \<and> colon \<notin> set (butlast seg))"

definition segment_pattern :: "string \<Rightarrow> bool" where
  "segment_pattern pattern =
     list_all (\<lambda>seg. if named_segment seg then tl seg \<noteq> ''__proto__'' else literal_segment seg)
       (split_slash pattern)"

text \<open>
  The expression a well-formed pattern compiles to, read off its segments: a named
  segment gives the group, a literal segment the sequence of its characters, and two
  neighbours are joined by the slash.
\<close>

definition seg_items :: "string \<Rightarrow> rx_item list" where
  "seg_items seg = (if named_segment seg then [Group] else map Lit seg)"

fun segs_items :: "string list \<Rightarrow> rx_item list" where
  "segs_items [] = []"
| "segs_items [seg] = seg_items seg"
| "segs_items (seg # segs) = seg_items seg @ Lit slash # segs_items segs"

section \<open>Arguments of the public operations\<close>

text \<open>
  The operations check the types of their arguments at run time, so an argument is any
  value. A number is a finite value, \<open>NaN\<close> or an infinity; only comparisons with
  constants are made on it. An object carries its own string-valued properties.
\<close>

datatype js_number = Finite real | NaN | PosInfinity | NegInfinity

datatype 'f js_value =
    JUndefined | JNull | JBool bool | JNum js_number | JStr string
  | JObj "string \<rightharpoonup> string" | JFun 'f

fun typeof :: "'f js_value \<Rightarrow> string" where
  "typeof JUndefined = ''undefined''"
| "typeof JNull = ''object''"
| "typeof (JBool b) = ''boolean''"
| "typeof (JNum n) = ''number''"
| "typeof (JStr s) = ''string''"
| "typeof (JObj ob) = ''object''"
| "typeof (JFun f) = ''function''"

fun num_truthy :: "js_number \<Rightarrow> bool" where
  "num_truthy (Finite x) = (x \<noteq> 0)"
| "num_truthy NaN = False"
| "num_truthy PosInfinity = True"
| "num_truthy NegInfinity = True"

fun truthy :: "'f js_value \<Rightarrow> bool" where
  "truthy JUndefined = False"
| "truthy JNull = False"
| "truthy (JBool b) = b"
| "truthy (JNum n) = num_truthy n"
| "truthy (JStr s) = (s \<noteq> [])"
| "truthy (JObj ob) = True"
| "truthy (JFun f) = True"

text \<open>\<open>n < k\<close> and \<open>n > k\<close> for a constant \<open>k\<close>: every comparison with \<open>NaN\<close> is false.\<close>

fun num_less :: "js_number \<Rightarrow> real \<Rightarrow> bool" where
  "num_less (Finite x) k = (x < k)"
| "num_less NaN k = False"
| "num_less PosInfinity k = False"
| "num_less NegInfinity k = True"

fun num_greater :: "js_number \<Rightarrow> real \<Rightarrow> bool" where
  "num_greater (Finite x) k = (x > k)"
| "num_greater NaN k = False"
| "num_greater PosInfinity k = True"
| "num_greater NegInfinity k = False"

section \<open>Registration\<close>

record 'f route =
  route_url :: string
  route_callback :: 'f
  route_method :: string

record 'f router =
  routes :: "'f route list"
  middlewares :: "'f list"

definition Router :: "'f router" where
  "Router = \<lparr>routes = [], middlewares = []\<rparr>"

definition use :: "'f router \<Rightarrow> 'f js_value \<Rightarrow> failure + 'f router" where
  "use r middleware =
     (case middleware of
        JFun f \<Rightarrow> Inr (r\<lparr>middlewares := middlewares r @ [f]\<rparr>)
      | _ \<Rightarrow> Inl (Error ''Middleware must be a function.''))"

text \<open>
  \<open>_addRoute\<close>: the three argument checks in the order of the source, then the scan of
  the table that throws at a route with the same url and method, then the push.
\<close>

definition addRoute ::
  "'f router \<Rightarrow> string \<Rightarrow> 'f js_value \<Rightarrow> 'f js_value \<Rightarrow> failure + 'f router" where
  "addRoute r method url callback =
     (if \<not> truthy url \<or> \<not> truthy callback then Inl (Error ''URL or Callback is not provided.'')
      else case url of
        JStr u \<Rightarrow>
          (case callback of
             JFun f \<Rightarrow>
               if list_ex (\<lambda>rt. route_url rt = u \<and> route_method rt = method) (routes r)
               then Inl (Error (''Route already exists for '' @ method @ '' '' @ u @ ''.''))
               else Inr (r\<lparr>routes := routes r @
                      [\<lparr>route_url = u, route_callback = f, route_method = method\<rparr>]\<rparr>)
           | _ \<Rightarrow> Inl (Error ''Callback must be of type function.''))
      | _ \<Rightarrow> Inl (Error ''URL must be of type string.''))"

definition get :: "'f router \<Rightarrow> 'f js_value \<Rightarrow> 'f js_value \<Rightarrow> failure + 'f router" where
  "get r url callback = addRoute r ''GET'' url callback"

definition post :: "'f router \<Rightarrow> 'f js_value \<Rightarrow> 'f js_value \<Rightarrow> failure + 'f router" where
  "post r url callback = addRoute r ''POST'' url callback"

definition put :: "'f router \<Rightarrow> 'f js_value \<Rightarrow> 'f js_value \<Rightarrow> failure + 'f router" where
  "put r url callback = addRoute r ''PUT'' url callback"

definition delete :: "'f router \<Rightarrow> 'f js_value \<Rightarrow> 'f js_value \<Rightarrow> failure + 'f router" where
  "delete r url callback = addRoute r ''DELETE'' url callback"

definition patch :: "'f router \<Rightarrow> 'f js_value \<Rightarrow> 'f js_value \<Rightarrow> failure + 'f router" where
  "patch r url callback = addRoute r ''PATCH'' url callback"

definition options :: "'f router \<Rightarrow> 'f js_value \<Rightarrow> 'f js_value \<Rightarrow> failure + 'f router" where
  "options r url callback = addRoute r ''OPTIONS'' url callback"

text \<open>
  The states of a router that its registration operations reach: a call that throws
  leaves the tables as they were, a call that returns has replaced them.
\<close>

datatype 'f registration =
    Use "'f js_value"
  | Get "'f js_value" "'f js_value"
  | Post "'f js_value" "'f js_value"
  | Put "'f js_value" "'f js_value"
  | Delete "'f js_value" "'f js_value"
  | Patch "'f js_value" "'f js_value"
  | Options "'f js_value" "'f js_value"

fun register :: "'f router \<Rightarrow> 'f registration \<Rightarrow> failure + 'f router" where
  "register r (Use m) = use r m"
| "register r (Get u c) = get r u c"
| "register r (Post u c) = post r u c"
| "register r (Put u c) = put r u c"
| "register r (Delete u c) = delete r u c"
| "register r (Patch u c) = patch r u c"
| "register r (Options u c) = options r u c"

inductive reachable :: "'f router \<Rightarrow> bool" where
  initial: "reachable Router"
| registered: "reachable r \<Longrightarrow> register r call = Inr r' \<Longrightarrow> reachable r'"

definition route_key :: "'f route \<Rightarrow> string \<times> string" where
  "route_key rt = (route_method rt, route_url rt)"

section \<open>Responses\<close>

text \<open>
  A response is the record of a body with the status, status text and headers of the
  init object. A body produced by \<open>JSON.stringify\<close> is kept as the value that was
  serialized. The transport's constructor \<open>new Response(body, init)\<close> is outside the
  repository and refuses some arguments (a status outside 200 to 599, a status that
  allows no body, a status text or a header that cannot be sent). Where the builder
  calls it with the caller's status, text and headers, in \<open>json()\<close>, the constructor
  is a parameter: it gives the response, or the message of the error it raises.
\<close>

datatype json = JString string | JNumber js_number | JObject "(string \<times> json) list"

datatype body = Stringified json | Text string

record response =
  resp_body :: body
  resp_status :: js_number
  resp_statusText :: string
  resp_headers :: "string \<rightharpoonup> string"

type_synonym response_ctor =
  "body \<Rightarrow> js_number \<Rightarrow> string \<Rightarrow> (string \<rightharpoonup> string) \<Rightarrow> string + response"

text \<open>
  \<open>_errorResponse(status, statusText, message = null)\<close>. The message is a string or
  absent (\<open>null\<close> or \<open>undefined\<close>); \<open>if (message)\<close> lets a non-empty string through.
  \<open>fetch\<close> calls it with the statuses 400, 404 and 500, status texts of its own and
  the two headers below, which the constructor accepts (\<open>standard_accepts_errors\<close>
  below); its response is the record of these arguments.
\<close>

definition errorResponse :: "js_number \<Rightarrow> string \<Rightarrow> string option \<Rightarrow> response" where
  "errorResponse st stText message =
     \<lparr>resp_body = Stringified (JObject
        ([(''error'', JString stText), (''status'', JNumber st)] @
         (case message of
            None \<Rightarrow> []
          | Some m \<Rightarrow> if m \<noteq> [] then [(''message'', JString m)] else []))),
      resp_status = st,
      resp_statusText = stText,
      resp_headers = [''Content-Type'' \<mapsto> ''application/json'',
                      ''Access-Control-Allow-Origin'' \<mapsto> ''*'']\<rparr>"

subsection \<open>The response builder\<close>

record router_response =
  header :: "string \<rightharpoonup> string"
  status :: js_number
  statusText :: string

definition RouterResponse :: router_response where
  "RouterResponse =
     \<lparr>header = [''Access-Control-Allow-Origin'' \<mapsto> ''*'',
                ''Server'' \<mapsto> ''Cloudflare Worker'',
                ''Access-Control-Allow-Headers'' \<mapsto> ''*'',
                ''Access-Control-Allow-Methods'' \<mapsto> ''GET, POST, PUT, DELETE, PATCH, OPTIONS''],
      status = Finite 200,
      statusText = ''OK''\<rparr>"

text \<open>
  \<open>writeHead(status, statusText, headers)\<close>: the three checks, then the three
  assignments. \<open>statusText || ''\<close> is the text when it is a non-empty string (a truthy
  value that passed the second check) and the empty string otherwise; the spread
  \<open>{ ...this.header, ...headers }\<close> lets the supplied properties win.
\<close>

definition writeHead ::
  "router_response \<Rightarrow> 'f js_value \<Rightarrow> 'f js_value \<Rightarrow> 'f js_value \<Rightarrow> failure + router_response" where
  "writeHead res st stText hs =
     (case st of
        JNum n \<Rightarrow>
          if num_less n 100 \<or> num_greater n 599
          then Inl (Error ''Status must be a number between 100 and 599'')
          else if truthy stText \<and> typeof stText \<noteq> ''string''
          then Inl (Error ''Status text must be a string'')
          else if truthy hs \<and> typeof hs \<noteq> ''object''
          then Inl (Error ''Headers must be an object'')
          else Inr (res\<lparr>
            header := (case hs of JObj supplied \<Rightarrow> header res ++ supplied | _ \<Rightarrow> header res),
            status := n,
            statusText := (case stText of JStr t \<Rightarrow> t | _ \<Rightarrow> [])\<rparr>)
      | _ \<Rightarrow> Inl (Error ''Status must be a number between 100 and 599''))"

text \<open>
  \<open>json(body)\<close>: the argument is a value to serialize, or \<open>undefined\<close> (\<open>None\<close>). The
  \<open>try\<close> block throws on \<open>undefined\<close> and else calls the constructor \<open>ctor\<close> with
  the serialized body, \<open>this.status || 200\<close>, \<open>this.statusText || "OK"\<close> and the
  headers with the content type added; the function's own \<open>catch\<close> wraps whatever the
  block throws, the constructor's refusal included.
\<close>

definition status_or_200 :: "js_number \<Rightarrow> js_number" where
  "status_or_200 n = (if num_truthy n then n else Finite 200)"

definition statusText_or_OK :: "string \<Rightarrow> string" where
  "statusText_or_OK t = (if t \<noteq> [] then t else ''OK'')"

definition RouterResponse_json_try ::
  "response_ctor \<Rightarrow> router_response \<Rightarrow> json option \<Rightarrow> string + response" where
  "RouterResponse_json_try ctor res b =
     (case b of
        None \<Rightarrow> Inl ''Cannot serialize undefined to JSON''
      | Some v \<Rightarrow> ctor (Stringified v)
                    (status_or_200 (status res))
                    (statusText_or_OK (statusText res))
                    ((header res)(''Content-Type'' \<mapsto> ''application/json'')))"

definition RouterResponse_json ::
  "response_ctor \<Rightarrow> router_response \<Rightarrow> json option \<Rightarrow> failure + response" where
  "RouterResponse_json ctor res b =
     (case RouterResponse_json_try ctor res b of
        Inl msg \<Rightarrow> Inl (Error (''Failed to serialize response to JSON: '' @ msg))
      | Inr r \<Rightarrow> Inr r)"

section \<open>The request wrapper\<close>

text \<open>
  The raw request of the transport: its \<open>url\<close> when that is a string, its method, its
  header accessor (absent, an object with a \<open>get\<close> function, or an object without
  one), and what reading its body as text gives: the text, or the message of the error
  the read rejects with. The platform's \<open>URL\<close> constructor is a parameter: it gives the
  path name and the query entries, or raises (\<open>None\<close>); its argument is \<open>None\<close> for a
  url that is not a string.
\<close>

datatype raw_headers = HeadersAbsent | HeadersGet "string \<rightharpoonup> string" | HeadersNoGet

record raw_request =
  raw_url :: "string option"
  raw_method :: string
  raw_headers :: raw_headers
  raw_text :: "string + string"

record parsed_url =
  pathname :: string
  searchParams :: "(string \<times> string) list"

type_synonym url_parser = "string option \<Rightarrow> parsed_url option"

text \<open>
  Of the client snapshot only the header read is kept, the one step of it that can
  raise. The constructor assigns \<open>client\<close>, \<open>method\<close>, \<open>url\<close>, \<open>headers\<close>, \<open>body\<close>,
  \<open>request\<close> and \<open>query\<close>; it does not assign \<open>params\<close>, so that field is \<open>undefined\<close>
  (\<open>None\<close>) on a new wrapper.
\<close>

record router_request =
  req_ipAddress :: "string option"
  req_method :: string
  req_url :: parsed_url
  req_headers :: raw_headers
  req_request :: raw_request
  req_query :: "string \<rightharpoonup> string"
  req_params :: "params option"

definition RouterRequest :: "url_parser \<Rightarrow> raw_request option \<Rightarrow> failure + router_request" where
  "RouterRequest URL request =
     (case request of
        None \<Rightarrow> Inl (Error ''Request object is required'')
      | Some rq \<Rightarrow>
          (case raw_headers rq of
             HeadersNoGet \<Rightarrow> Inl TypeError
           | hs \<Rightarrow>
               (case URL (raw_url rq) of
                  None \<Rightarrow> Inl TypeError
                | Some u \<Rightarrow> Inr
                    \<lparr>req_ipAddress =
                       (case hs of
                          HeadersGet h \<Rightarrow> (case h ''cf-connecting-ip'' of
                                              Some ip \<Rightarrow> if ip \<noteq> [] then Some ip else None
                                            | None \<Rightarrow> None)
                        | _ \<Rightarrow> None),
                     req_method = raw_method rq,
                     req_url = u,
                     req_headers = hs,
                     req_request = rq,
                     req_query = fold (\<lambda>(k, v) q. set_prop q k v) (searchParams u) Map.empty,
                     req_params = None\<rparr>)))"

subsection \<open>Body accessors\<close>

text \<open>
  \<open>text()\<close>: the \<open>try\<close> block reads the body and throws the size error when the text has
  more than \<open>1024 * 1024\<close> code units; the \<open>catch\<close> of the same function receives
  every error of the block, that one included, and throws a new error whose message is
  a fixed prefix followed by the message it caught.
\<close>

definition RouterRequest_text_try :: "router_request \<Rightarrow> string + string" where
  "RouterRequest_text_try req =
     (case raw_text (req_request req) of
        Inl msg \<Rightarrow> Inl msg
      | Inr t \<Rightarrow> if length t > 1024 * 1024 then Inl ''Request body too large (max 1MB)''
                else Inr t)"

definition RouterRequest_text :: "router_request \<Rightarrow> failure + string" where
  "RouterRequest_text req =
     (case RouterRequest_text_try req of
        Inl msg \<Rightarrow> Inl (Error (''Failed to parse request body as text: '' @ msg))
      | Inr t \<Rightarrow> Inr t)"

text \<open>
  \<open>json()\<close>. \<open>trim\<close> removes white space and line terminators at both ends;
  \<open>JSON.parse\<close> is the platform's, a parameter giving the parsed value or the message
  of the \<open>SyntaxError\<close> it raises. The \<open>catch\<close> looks for the text \<open>JSON\<close> in the
  message it caught to choose between its two errors. (\<open>text()\<close> throws nothing but
  an \<open>Error\<close> with a message, so the other case of \<open>message_of_failure\<close> is never
  reached.)
\<close>

definition white_space :: "char \<Rightarrow> bool" where
  "white_space c =
     (c \<in> {CHR 0x09, CHR 0x0A, CHR 0x0B, CHR 0x0C, CHR 0x0D, CHR 0x20, CHR 0xA0})"

definition trim :: "string \<Rightarrow> string" where
  "trim s = rev (dropWhile white_space (rev (dropWhile white_space s)))"

fun starts_with :: "string \<Rightarrow> string \<Rightarrow> bool" where
  "starts_with s [] = True"
| "starts_with [] (p # ps) = False"
| "starts_with (c # cs) (p # ps) = (c = p \<and> starts_with cs ps)"

fun includes_text :: "string \<Rightarrow> string \<Rightarrow> bool" where
  "includes_text [] sub = (sub = [])"
| "includes_text (c # cs) sub = (starts_with (c # cs) sub \<or> includes_text cs sub)"

definition message_of_failure :: "failure \<Rightarrow> string" where
  "message_of_failure f = (case f of Error m \<Rightarrow> m | _ \<Rightarrow> [])"

definition RouterRequest_json_try ::
  "(string \<Rightarrow> string + 'j) \<Rightarrow> router_request \<Rightarrow> string + 'j" where
  "RouterRequest_json_try JSON_parse req =
     (case RouterRequest_text req of
        Inl f \<Rightarrow> Inl (message_of_failure f)
      | Inr t \<Rightarrow> if trim t = [] then Inl ''Empty request body'' else JSON_parse t)"

definition RouterRequest_json ::
  "(string \<Rightarrow> string + 'j) \<Rightarrow> router_request \<Rightarrow> failure + 'j" where
  "RouterRequest_json JSON_parse req =
     (case RouterRequest_json_try JSON_parse req of
        Inl msg \<Rightarrow>
          if includes_text msg ''JSON''
          then Inl (Error (''Invalid JSON format: '' @ msg))
          else Inl (Error (''Failed to parse request body as JSON: '' @ msg))
      | Inr v \<Rightarrow> Inr v)"

section \<open>Dispatch\<close>

text \<open>
  A middleware or a route handler is a function of the user's; the model takes it as
  a function that always completes. It is called with the request wrapper, the response
  builder, and the \<open>env\<close> and \<open>ctx\<close> values; it may change the wrapper, the builder and
  any state of its own (\<open>'u\<close>: counters, logs, whatever its side effects reach), and it
  returns a value or throws one. Of a returned value the dispatcher asks only whether it
  is a response. Of a thrown value it reads \<open>error.message\<close>: a string for an error
  object, \<open>undefined\<close> for a value without that property, and a \<open>TypeError\<close> of the
  platform when the thrown value is \<open>null\<close> or \<open>undefined\<close>.

  \<open>await\<close> is sequential composition here: the call runs to its completion before the
  dispatcher goes on. The tables of the router and the raw request are not changed
  during a dispatch.
\<close>

datatype returned = IsResponse response | NotResponse

datatype thrown = ThrownError string | ThrownOther | ThrownNullish

datatype outcome = Returns returned | Throws thrown

type_synonym 'u world = "router_request \<times> router_response \<times> 'u"

type_synonym ('e, 'c, 'u) callback = "'e \<Rightarrow> 'c \<Rightarrow> 'u world \<Rightarrow> outcome \<times> 'u world"

fun message_of :: "thrown \<Rightarrow> failure + string option" where
  "message_of (ThrownError m) = Inr (Some m)"
| "message_of ThrownOther = Inr None"
| "message_of ThrownNullish = Inl TypeError"

text \<open>
  The two loops of \<open>fetch\<close>. Each gives, with the world it leaves, one of: a failure
  that escapes the loop (\<open>Inl\<close>), the value of a \<open>return\<close> statement executed in the
  loop (\<open>Inr (Some v)\<close>), or nothing when the loop runs to its end (\<open>Inr None\<close>).
\<close>

fun run_middlewares ::
  "('e, 'c, 'u) callback list \<Rightarrow> 'e \<Rightarrow> 'c \<Rightarrow> 'u world \<Rightarrow> (failure + returned option) \<times> 'u world" where
  "run_middlewares [] env ctx w = (Inr None, w)"
| "run_middlewares (middleware # rest) env ctx w =
     (case middleware env ctx w of
        (Returns (IsResponse r), w') \<Rightarrow> (Inr (Some (IsResponse r)), w')
      | (Returns NotResponse, w') \<Rightarrow> run_middlewares rest env ctx w'
      | (Throws err, w') \<Rightarrow>
          (case message_of err of
             Inl f \<Rightarrow> (Inl f, w')
           | Inr msg \<Rightarrow>
               (Inr (Some (IsResponse (errorResponse (Finite 500) ''Middleware Error'' msg))), w')))"

definition set_params :: "params \<Rightarrow> 'u world \<Rightarrow> 'u world" where
  "set_params ps w = (case w of (req, res, u) \<Rightarrow> (req\<lparr>req_params := Some ps\<rparr>, res, u))"

fun run_routes ::
  "rx_engine \<Rightarrow> ('e, 'c, 'u) callback route list \<Rightarrow> string \<Rightarrow> string \<Rightarrow> 'e \<Rightarrow> 'c \<Rightarrow> 'u world
     \<Rightarrow> (failure + returned option) \<times> 'u world" where
  "run_routes ext [] path meth env ctx w = (Inr None, w)"
| "run_routes ext (rt # rest) path meth env ctx w =
     (case matchRoute ext (route_url rt) path of
        Inl f \<Rightarrow> (Inl f, w)
      | Inr None \<Rightarrow> run_routes ext rest path meth env ctx w
      | Inr (Some ps) \<Rightarrow>
          if route_method rt = meth then
            (case route_callback rt env ctx (set_params ps w) of
               (Returns v, w') \<Rightarrow> (Inr (Some v), w')
             | (Throws err, w') \<Rightarrow>
                 (case message_of err of
                    Inl f \<Rightarrow> (Inl f, w')
                  | Inr msg \<Rightarrow>
                      (Inr (Some (IsResponse
                         (errorResponse (Finite 500) ''Internal Server Error'' msg))), w')))
          else run_routes ext rest path meth env ctx w)"

text \<open>
  The \<open>try\<close> block of \<open>fetch\<close>, and \<open>fetch\<close> with its \<open>catch\<close>. The result is what the
  returned promise settles to, \<open>Inl\<close> for a rejection, together with the user's state
  after the call.
\<close>

definition user_state :: "'u world \<Rightarrow> 'u" where
  "user_state w = snd (snd w)"

definition fetch_try ::
  "url_parser \<Rightarrow> rx_engine \<Rightarrow> ('e, 'c, 'u) callback router \<Rightarrow> raw_request option
     \<Rightarrow> 'e \<Rightarrow> 'c \<Rightarrow> 'u \<Rightarrow> (failure + returned) \<times> 'u" where
  "fetch_try URL ext this request env ctx u =
     (case request of
        None \<Rightarrow> (Inr (IsResponse (errorResponse (Finite 400) ''Invalid request object'' None)), u)
      | Some rq \<Rightarrow>
          (case raw_url rq of
             None \<Rightarrow>
               (Inr (IsResponse (errorResponse (Finite 400) ''Invalid request object'' None)), u)
           | Some s \<Rightarrow>
               (case URL (Some s) of
                  None \<Rightarrow> (Inl TypeError, u)
                | Some parsed \<Rightarrow>
                    (case RouterRequest URL request of
                       Inl f \<Rightarrow> (Inl f, u)
                     | Inr req \<Rightarrow>
                         (case run_middlewares (middlewares this) env ctx (req, RouterResponse, u) of
                            (Inl f, w) \<Rightarrow> (Inl f, user_state w)
                          | (Inr (Some v), w) \<Rightarrow> (Inr v, user_state w)
                          | (Inr None, w) \<Rightarrow>
                              (case run_routes ext (routes this) (pathname parsed)
                                      (raw_method rq) env ctx w of
                                 (Inl f, w') \<Rightarrow> (Inl f, user_state w')
                               | (Inr (Some v), w') \<Rightarrow> (Inr v, user_state w')
                               | (Inr None, w') \<Rightarrow>
                                   (Inr (IsResponse (errorResponse (Finite 404) ''Not Found''
                                      (Some (''Route '' @ raw_method rq @ '' '' @ pathname parsed
                                             @ '' not found'')))),
                                    user_state w')))))))"

definition fetch ::
  "url_parser \<Rightarrow> rx_engine \<Rightarrow> ('e, 'c, 'u) callback router \<Rightarrow> raw_request option
     \<Rightarrow> 'e \<Rightarrow> 'c \<Rightarrow> 'u \<Rightarrow> (failure + returned) \<times> 'u" where
  "fetch URL ext this request env ctx u =
     (case fetch_try URL ext this request env ctx u of
        (Inl f, u') \<Rightarrow>
          (Inr (IsResponse (errorResponse (Finite 500) ''Internal Server Error''
                  (Some ''Failed to process request''))), u')
      | (Inr v, u') \<Rightarrow> (Inr v, u'))"

text \<open>
  The invariant of the route table: the (method, url) pairs are pairwise different and
  no url is the empty string (the first check of \<open>_addRoute\<close> refuses it).
\<close>

definition table_ok :: "'f router \<Rightarrow> bool" where
  "table_ok r = (distinct (map route_key (routes r)) \<and> [] \<notin> set (map route_url (routes r)))"

text \<open>
  A route misses a request when the loop of \<open>fetch\<close> passes over it: its pattern does
  not match the path, or it matches and the methods differ. (A pattern whose regular
  expression does not compile is neither a hit nor a miss: it ends the loop with the
  constructor's error.)
\<close>

definition misses :: "rx_engine \<Rightarrow> string \<Rightarrow> string \<Rightarrow> 'f route \<Rightarrow> bool" where
  "misses ext path meth rt =
     (case matchRoute ext (route_url rt) path of
        Inl f \<Rightarrow> False
      | Inr None \<Rightarrow> True
      | Inr (Some ps) \<Rightarrow> route_method rt \<noteq> meth)"

subsection \<open>A platform to run the model on\<close>

text \<open>
  Concrete requests need a concrete platform. \<open>sample_URL\<close> parses the urls
  \<open>https://example.com/...\<close> without query or fragment, on which it gives the path
  name the platform's parser gives; \<open>sample_engine\<close> raises a syntax error on every
  source outside the fragment, as the platform's engine does on \<open>^/a($\<close>.
\<close>

text \<open>
  \<open>standard_Response\<close> is the constructor as the Fetch standard words it. The status
  is converted to an unsigned 16-bit integer (not a number: 0; else truncated, modulo
  65536). Then, in this order: a status outside 200 to 599 is refused; a status text
  with a character outside the reason phrase is refused; a header whose name is not a
  token or whose value has a NUL, CR or LF is refused; a status that allows no body
  (204, 205, 304 in that range) is refused, since the builder always gives a body.
  The messages of the refusals are the engine's; the ones here only name the check.
\<close>

definition to_unsigned_short :: "js_number \<Rightarrow> int" where
  "to_unsigned_short n =
     (case n of
        Finite x \<Rightarrow> (if 0 \<le> x then \<lfloor>x\<rfloor> else \<lceil>x\<rceil>) mod 65536
      | _ \<Rightarrow> 0)"

definition reason_phrase_char :: "char \<Rightarrow> bool" where
  "reason_phrase_char c =
     (c = CHR 0x09 \<or> c = CHR 0x20 \<or> (0x21 \<le> (of_char c :: nat) \<and> (of_char c :: nat) \<le> 0x7E)
      \<or> 0x80 \<le> (of_char c :: nat))"

definition token_char :: "char \<Rightarrow> bool" where
  "token_char c =
     ((0x30 \<le> (of_char c :: nat) \<and> (of_char c :: nat) \<le> 0x39)
      \<or> (0x41 \<le> (of_char c :: nat) \<and> (of_char c :: nat) \<le> 0x5A)
      \<or> (0x61 \<le> (of_char c :: nat) \<and> (of_char c :: nat) \<le> 0x7A)
      \<or> c = CHR 0x27 \<or> c = CHR 0x60 \<or> c \<in> set ''!#$%&*+-.^_|~'')"

definition header_name :: "string \<Rightarrow> bool" where
  "header_name k = (k \<noteq> [] \<and> list_all token_char k)"

definition header_value :: "string \<Rightarrow> bool" where
  "header_value v = list_all (\<lambda>c. c \<noteq> CHR 0x00 \<and> c \<noteq> CHR 0x0A \<and> c \<noteq> CHR 0x0D) v"

definition headers_ok :: "(string \<rightharpoonup> string) \<Rightarrow> bool" where
  "headers_ok hs = (\<forall>k v. hs k = Some v \<longrightarrow> header_name k \<and> header_value v)"

definition null_body_status :: "int \<Rightarrow> bool" where
  "null_body_status code = (code \<in> {101, 103, 204, 205, 304})"

definition standard_Response :: response_ctor where
  "standard_Response b st stText hs =
     (if to_unsigned_short st < 200 \<or> 599 < to_unsigned_short st
      then Inl ''status out of range''
      else if \<not> list_all reason_phrase_char stText then Inl ''invalid status text''
      else if \<not> headers_ok hs then Inl ''invalid header''
      else if null_body_status (to_unsigned_short st) then Inl ''status allows no body''
      else Inr \<lparr>resp_body = b,
                 resp_status = Finite (of_int (to_unsigned_short st)),
                 resp_statusText = stText,
                 resp_headers = hs\<rparr>)"

definition sample_URL :: url_parser where
  "sample_URL u =
     (case u of
        None \<Rightarrow> None
      | Some s \<Rightarrow>
          if starts_with s ''https://example.com/''
          then Some \<lparr>pathname = drop 19 s, searchParams = []\<rparr> else None)"

definition sample_engine :: rx_engine where
  "sample_engine src s = RxSyntaxError"

definition sample_request :: "string \<Rightarrow> string \<Rightarrow> raw_request" where
  "sample_request meth u =
     \<lparr>raw_url = Some u, raw_method = meth, raw_headers = HeadersAbsent, raw_text = Inr []\<rparr>"

text \<open>
  A callback that records its number in a log, the user's state here, and completes
  with a given outcome: what a side-effect counter in a test observes.
\<close>

definition logs :: "nat \<Rightarrow> outcome \<Rightarrow> ('e, 'c, nat list) callback" where
  "logs n out env ctx w = (out, case w of (req, res, l) \<Rightarrow> (req, res, l @ [n]))"

text \<open>A field of the object a response's body was serialized from.\<close>

definition body_field :: "response \<Rightarrow> string \<Rightarrow> json option" where
  "body_field r k = (case resp_body r of Stringified (JObject kvs) \<Rightarrow> map_of kvs k | _ \<Rightarrow> None)"

text \<open>
  Two notions to speak about what a middleware can see of \<open>params\<close>. A callback keeps
  \<open>params\<close> when it leaves that field of the wrapper as it found it.
  \<open>when_params_absent m other\<close> behaves as \<open>m\<close> when it is called with \<open>params\<close>
  undefined and as \<open>other\<close> when it is called with \<open>params\<close> set: if replacing \<open>m\<close>
  by it never changes a dispatch, \<open>m\<close> is never called with \<open>params\<close> set.
\<close>

definition keeps_params :: "('e, 'c, 'u) callback \<Rightarrow> bool" where
  "keeps_params m = (\<forall>env ctx w. req_params (fst (snd (m env ctx w))) = req_params (fst w))"

definition when_params_absent ::
  "('e, 'c, 'u) callback \<Rightarrow> ('e, 'c, 'u) callback \<Rightarrow> ('e, 'c, 'u) callback" where
  "when_params_absent m other env ctx w =
     (if req_params (fst w) = None then m env ctx w else other env ctx w)"

text \<open>
  A callback that reads one parameter, as \<open>(req, res) => res.text(req.params[k])\<close>
  does: the property read throws when \<open>params\<close> is \<open>undefined\<close>.
\<close>

definition echo_param :: "string \<Rightarrow> ('e, 'c, 'u) callback" where
  "echo_param k env ctx w =
     (case req_params (fst w) of
        None \<Rightarrow> (Throws (ThrownError ''Cannot read properties of undefined''), w)
      | Some ps \<Rightarrow>
          (Returns (IsResponse
             \<lparr>resp_body = Text (case ps k of Some (Some v) \<Rightarrow> v | _ \<Rightarrow> []),
              resp_status = Finite 200,
              resp_statusText = ''OK'',
              resp_headers = (header (fst (snd w)))(''Content-Type'' \<mapsto> ''text/plain'')\<rparr>), w))"

text \<open>
  A wrapper around a request whose body read gives \<open>b\<close>, and a parser that agrees with
  \<open>JSON.parse\<close> on the text \<open>{}\<close> and raises on everything else with a message of the
  engine's.
\<close>

definition request_with_body :: "string + string \<Rightarrow> router_request" where
  "request_with_body b =
     \<lparr>req_ipAddress = None, req_method = ''POST'',
      req_url = \<lparr>pathname = ''/users'', searchParams = []\<rparr>,
      req_headers = HeadersAbsent,
      req_request = \<lparr>raw_url = Some ''https://example.com/users'', raw_method = ''POST'',
                      raw_headers = HeadersAbsent, raw_text = b\<rparr>,
      req_query = Map.empty, req_params = None\<rparr>"

definition sample_JSON_parse :: "string \<Rightarrow> string + json" where
  "sample_JSON_parse t =
     (if t = ''{}'' then Inr (JObject []) else Inl ''Unexpected end of JSON input'')"

text \<open>A body one code unit longer than the limit of \<open>text()\<close>.\<close>

definition oversized_body :: string where
  "oversized_body = replicate (1024 * 1024 + 1) CHR ''a''"

section \<open>Verification\<close>

subsection \<open>Registration keeps the (method, url) pairs of the table distinct\<close>

lemma addRoute_InrD:
  assumes "addRoute r m url cb = Inr r'"
  shows "\<exists>u f. url = JStr u \<and> u \<noteq> [] \<and> cb = JFun f
           \<and> (m, u) \<notin> set (map route_key (routes r))
           \<and> r' = r\<lparr>routes := routes r @ [\<lparr>route_url = u, route_callback = f, route_method = m\<rparr>]\<rparr>"
  using assms
  by (auto simp: addRoute_def list_ex_iff route_key_def image_iff split: js_value.splits if_splits)

lemma use_InrD:
  "use r m = Inr r' \<Longrightarrow> routes r' = routes r"
  by (auto simp: use_def split: js_value.splits)

lemma addRoute_table_ok:
  assumes "addRoute r m url cb = Inr r'" "table_ok r"
  shows "table_ok r'"
proof -
  from addRoute_InrD[OF assms(1)] obtain u f where
    "u \<noteq> []" "(m, u) \<notin> set (map route_key (routes r))"
    "r' = r\<lparr>routes := routes r @ [\<lparr>route_url = u, route_callback = f, route_method = m\<rparr>]\<rparr>"
    by blast
  with assms(2) show ?thesis
    by (auto simp: table_ok_def route_key_def)
qed

lemma register_table_ok:
  assumes "register r call = Inr r'" "table_ok r"
  shows "table_ok r'"
proof (cases call)
  case (Use m)
  with assms show ?thesis by (auto simp: table_ok_def dest: use_InrD)
qed (use assms in \<open>auto simp: get_def post_def put_def delete_def patch_def options_def
       intro: addRoute_table_ok\<close>)

lemma reachable_table_ok: "reachable r \<Longrightarrow> table_ok r"
  by (induction rule: reachable.induct)
     (auto simp: table_ok_def Router_def dest: register_table_ok[unfolded table_ok_def])

lemma addRoute_duplicate:
  assumes "(m, u) \<in> set (map route_key (routes r))" "u \<noteq> []"
  shows "addRoute r m (JStr u) (JFun f) = Inl (Error (''Route already exists for '' @ m @ '' '' @ u @ ''.''))"
  using assms by (auto simp: addRoute_def list_ex_iff route_key_def)

lemma addRoute_fresh:
  assumes "(m, u) \<notin> set (map route_key (routes r))" "u \<noteq> []"
  shows "addRoute r m (JStr u) (JFun f) =
     Inr (r\<lparr>routes := routes r @ [\<lparr>route_url = u, route_callback = f, route_method = m\<rparr>]\<rparr>)"
  using assms by (auto simp: addRoute_def list_ex_iff route_key_def image_iff)

text \<open>
  Claim C3. In every state of a router that the registration operations (\<open>get\<close>,
  \<open>post\<close>, \<open>put\<close>, \<open>delete\<close>, \<open>patch\<close>, \<open>options\<close>, \<open>use\<close>) reach from the new router,
  no two routes of the table have the same (method, url) pair. In such a state each of
  the six route operations, called with a url that is in the table under the
  operation's method and with a handler, throws the error
  \<open>Route already exists for METHOD url.\<close> (the message of the source ends with a full
  stop), and called with a non-empty url that is not in the table under its method, it
  returns with the new route, under its method, appended at the end of the table; so a
  url registered under one method can be registered under each other method. The same
  holds of \<open>_addRoute\<close> for every method.
\<close>

theorem registration_invariant:
  fixes r :: "'f router"
  assumes "reachable r"
  shows "distinct (map route_key (routes r)) \<and>
    (\<forall>m u f. (m, u) \<in> set (map route_key (routes r)) \<longrightarrow>
        addRoute r m (JStr u) (JFun f)
          = Inl (Error (''Route already exists for '' @ m @ '' '' @ u @ ''.''))) \<and>
    (\<forall>m u f. u \<noteq> [] \<and> (m, u) \<notin> set (map route_key (routes r)) \<longrightarrow>
        addRoute r m (JStr u) (JFun f)
          = Inr (r\<lparr>routes := routes r @
                   [\<lparr>route_url = u, route_callback = f, route_method = m\<rparr>]\<rparr>)) \<and>
    (\<forall>u f. (''GET'', u) \<in> set (map route_key (routes r)) \<longrightarrow>
        get r (JStr u) (JFun f) = Inl (Error (''Route already exists for GET '' @ u @ ''.''))) \<and>
    (\<forall>u f. u \<noteq> [] \<and> (''GET'', u) \<notin> set (map route_key (routes r)) \<longrightarrow>
        get r (JStr u) (JFun f)
          = Inr (r\<lparr>routes := routes r @
                   [\<lparr>route_url = u, route_callback = f, route_method = ''GET''\<rparr>]\<rparr>)) \<and>
    (\<forall>u f. (''POST'', u) \<in> set (map route_key (routes r)) \<longrightarrow>
        post r (JStr u) (JFun f) = Inl (Error (''Route already exists for POST '' @ u @ ''.''))) \<and>
    (\<forall>u f. u \<noteq> [] \<and> (''POST'', u) \<notin> set (map route_key (routes r)) \<longrightarrow>
        post r (JStr u) (JFun f)
          = Inr (r\<lparr>routes := routes r @
                   [\<lparr>route_url = u, route_callback = f, route_method = ''POST''\<rparr>]\<rparr>)) \<and>
    (\<forall>u f. (''PUT'', u) \<in> set (map route_key (routes r)) \<longrightarrow>
        put r (JStr u) (JFun f) = Inl (Error (''Route already exists for PUT '' @ u @ ''.''))) \<and>
    (\<forall>u f. u \<noteq> [] \<and> (''PUT'', u) \<notin> set (map route_key (routes r)) \<longrightarrow>
        put r (JStr u) (JFun f)
          = Inr (r\<lparr>routes := routes r @
                   [\<lparr>route_url = u, route_callback = f, route_method = ''PUT''\<rparr>]\<rparr>)) \<and>
    (\<forall>u f. (''DELETE'', u) \<in> set (map route_key (routes r)) \<longrightarrow>
        delete r (JStr u) (JFun f) = Inl (Error (''Route already exists for DELETE '' @ u @ ''.''))) \<and>
    (\<forall>u f. u \<noteq> [] \<and> (''DELETE'', u) \<notin> set (map route_key (routes r)) \<longrightarrow>
        delete r (JStr u) (JFun f)
          = Inr (r\<lparr>routes := routes r @
                   [\<lparr>route_url = u, route_callback = f, route_method = ''DELETE''\<rparr>]\<rparr>)) \<and>
    (\<forall>u f. (''PATCH'', u) \<in> set (map route_key (routes r)) \<longrightarrow>
        patch r (JStr u) (JFun f) = Inl (Error (''Route already exists for PATCH '' @ u @ ''.''))) \<and>
    (\<forall>u f. u \<noteq> [] \<and> (''PATCH'', u) \<notin> set (map route_key (routes r)) \<longrightarrow>
        patch r (JStr u) (JFun f)
          = Inr (r\<lparr>routes := routes r @
                   [\<lparr>route_url = u, route_callback = f, route_method = ''PATCH''\<rparr>]\<rparr>)) \<and>
    (\<forall>u f. (''OPTIONS'', u) \<in> set (map route_key (routes r)) \<longrightarrow>
        options r (JStr u) (JFun f) = Inl (Error (''Route already exists for OPTIONS '' @ u @ ''.''))) \<and>
    (\<forall>u f. u \<noteq> [] \<and> (''OPTIONS'', u) \<notin> set (map route_key (routes r)) \<longrightarrow>
        options r (JStr u) (JFun f)
          = Inr (r\<lparr>routes := routes r @
                   [\<lparr>route_url = u, route_callback = f, route_method = ''OPTIONS''\<rparr>]\<rparr>))"
proof -
  have ok: "table_ok r" using assms by (rule reachable_table_ok)
  have ne: "u \<noteq> []" if "(m, u) \<in> set (map route_key (routes r))" for m u
    using that ok by (force simp: table_ok_def route_key_def)
  have dup: "addRoute r m (JStr u) (JFun f)
          = Inl (Error (''Route already exists for '' @ m @ '' '' @ u @ ''.''))"
    if "(m, u) \<in> set (map route_key (routes r))" for m u f
    using that ne[OF that] by (rule addRoute_duplicate)
  have fresh: "addRoute r m (JStr u) (JFun f)
          = Inr (r\<lparr>routes := routes r @
                   [\<lparr>route_url = u, route_callback = f, route_method = m\<rparr>]\<rparr>)"
    if "u \<noteq> [] \<and> (m, u) \<notin> set (map route_key (routes r))" for m u f
    using that by (intro addRoute_fresh) simp_all
  have "distinct (map route_key (routes r))"
    using ok by (simp add: table_ok_def)
  then show ?thesis
    unfolding get_def post_def put_def delete_def patch_def options_def
    using dup fresh by simp
qed

text \<open>
  The state after \<open>get('/test', f)\<close> on a new router: the pairs are distinct, a second
  \<open>get('/test', f)\<close> throws the duplicate error, and each of the other five operations
  appends \<open>/test\<close> under its own method.
\<close>

theorem registration_invariant_witness:
  "distinct (map route_key (routes \<lparr>routes = [\<lparr>route_url = ''/test'', route_callback = (), route_method = ''GET''\<rparr>], middlewares = []\<rparr>))
   \<and> get \<lparr>routes = [\<lparr>route_url = ''/test'', route_callback = (), route_method = ''GET''\<rparr>], middlewares = []\<rparr>
        (JStr ''/test'') (JFun ())
      = Inl (Error ''Route already exists for GET /test.'')
   \<and> post \<lparr>routes = [\<lparr>route_url = ''/test'', route_callback = (), route_method = ''GET''\<rparr>], middlewares = []\<rparr>
        (JStr ''/test'') (JFun ())
      = Inr \<lparr>routes = [\<lparr>route_url = ''/test'', route_callback = (), route_method = ''GET''\<rparr>,
                       \<lparr>route_url = ''/test'', route_callback = (), route_method = ''POST''\<rparr>], middlewares = []\<rparr>
   \<and> put \<lparr>routes = [\<lparr>route_url = ''/test'', route_callback = (), route_method = ''GET''\<rparr>], middlewares = []\<rparr>
        (JStr ''/test'') (JFun ())
      = Inr \<lparr>routes = [\<lparr>route_url = ''/test'', route_callback = (), route_method = ''GET''\<rparr>,
                       \<lparr>route_url = ''/test'', route_callback = (), route_method = ''PUT''\<rparr>], middlewares = []\<rparr>
   \<and> delete \<lparr>routes = [\<lparr>route_url = ''/test'', route_callback = (), route_method = ''GET''\<rparr>], middlewares = []\<rparr>
        (JStr ''/test'') (JFun ())
      = Inr \<lparr>routes = [\<lparr>route_url = ''/test'', route_callback = (), route_method = ''GET''\<rparr>,
                       \<lparr>route_url = ''/test'', route_callback = (), route_method = ''DELETE''\<rparr>], middlewares = []\<rparr>
   \<and> patch \<lparr>routes = [\<lparr>route_url = ''/test'', route_callback = (), route_method = ''GET''\<rparr>], middlewares = []\<rparr>
        (JStr ''/test'') (JFun ())
      = Inr \<lparr>routes = [\<lparr>route_url = ''/test'', route_callback = (), route_method = ''GET''\<rparr>,
                       \<lparr>route_url = ''/test'', route_callback = (), route_method = ''PATCH''\<rparr>], middlewares = []\<rparr>
   \<and> options \<lparr>routes = [\<lparr>route_url = ''/test'', route_callback = (), route_method = ''GET''\<rparr>], middlewares = []\<rparr>
        (JStr ''/test'') (JFun ())
      = Inr \<lparr>routes = [\<lparr>route_url = ''/test'', route_callback = (), route_method = ''GET''\<rparr>,
                       \<lparr>route_url = ''/test'', route_callback = (), route_method = ''OPTIONS''\<rparr>], middlewares = []\<rparr>"
proof -
  let ?r = "\<lparr>routes = [\<lparr>route_url = ''/test'', route_callback = (), route_method = ''GET''\<rparr>], middlewares = []\<rparr> :: unit router"
  have "register Router (Get (JStr ''/test'') (JFun ())) = Inr ?r"
    by (simp add: get_def addRoute_def Router_def)
  then have "reachable ?r"
    using reachable.initial reachable.registered by blast
  from registration_invariant[OF this] show ?thesis
    by (simp add: route_key_def)
qed

subsection \<open>\<open>writeHead\<close> and the response it prepares\<close>

lemma half_not_integer: "(401 / 2 :: real) \<notin> \<int>"
proof
  assume "(401 / 2 :: real) \<in> \<int>"
  then obtain k :: int where k: "(401 / 2 :: real) = of_int k"
    by (auto elim: Ints_cases)
  then have "(of_int (2 * k) :: real) = of_int 401" by simp
  then have "2 * k = 401" by (simp only: of_int_eq_iff)
  then show False by presburger
qed

text \<open>
  Claim C8 as it is worded fails: \<open>writeHead(200.5)\<close> returns although \<open>200.5\<close> is not
  an integer (the check is \<open>typeof status !== 'number' || status < 100 || status > 599\<close>),
  and \<open>writeHead(200, false, 0)\<close> returns although a status text and headers are
  supplied that are neither a string nor a map (both checks start with a test for a
  truthy value).
\<close>

theorem writeHead_integer_counterexample:
  "writeHead RouterResponse (JNum (Finite (401 / 2))) (JUndefined :: unit js_value) JUndefined
     = Inr (RouterResponse\<lparr>status := Finite (401 / 2), statusText := []\<rparr>)
   \<and> (401 / 2 :: real) \<notin> \<int>
   \<and> writeHead RouterResponse (JNum (Finite 200)) (JBool False :: unit js_value) (JNum (Finite 0))
     = Inr (RouterResponse\<lparr>status := Finite 200, statusText := []\<rparr>)"
  using half_not_integer by (simp add: writeHead_def)

lemma headers_ok_empty: "headers_ok Map.empty"
  by (simp add: headers_ok_def)

lemma headers_ok_upd:
  "headers_ok hs \<Longrightarrow> header_name k \<Longrightarrow> header_value v \<Longrightarrow> headers_ok (hs(k \<mapsto> v))"
  by (simp add: headers_ok_def)

lemma headers_ok_new_builder:
  "headers_ok ((header RouterResponse)(''Content-Type'' \<mapsto> ''application/json''))"
  unfolding RouterResponse_def router_response.simps
  by (intro headers_ok_upd headers_ok_empty)
     (simp_all add: header_name_def header_value_def token_char_def)

text \<open>
  The error responses of \<open>fetch\<close> are responses the standard constructor builds: for
  the statuses and the status texts \<open>fetch\<close> uses and any message, it accepts the
  arguments of \<open>_errorResponse\<close> and its response is the record of them.
\<close>

lemma standard_accepts_errors:
  assumes "(st, stText) \<in> {(400, ''Invalid request object''), (404, ''Not Found''),
              (500, ''Middleware Error''), (500, ''Internal Server Error'')}"
  shows "standard_Response (resp_body (errorResponse (Finite st) stText m)) (Finite st) stText
           (resp_headers (errorResponse (Finite st) stText m))
         = Inr (errorResponse (Finite st) stText m)"
proof -
  have hs: "headers_ok [''Content-Type'' \<mapsto> ''application/json'',
                        ''Access-Control-Allow-Origin'' \<mapsto> ''*'']"
    by (intro headers_ok_upd headers_ok_empty)
       (simp_all add: header_name_def header_value_def token_char_def)
  from assms show ?thesis
    by (auto simp: standard_Response_def errorResponse_def to_unsigned_short_def hs
          reason_phrase_char_def null_body_status_def)
qed

text \<open>
  Claim C8, amended. \<open>writeHead(status, statusText, headers)\<close> throws the status error
  when \<open>status\<close> is not of type number, and when it is a number below 100 or above 599,
  the infinities included. For every other number, a finite one from 100 to 599,
  integer or not, and \<open>NaN\<close>, for which both comparisons are false, it throws the
  status text error when \<open>statusText\<close> is truthy and not a string, else the headers
  error when \<open>headers\<close> is truthy and not of type object, and else it returns having
  only changed the builder: the status is the number, the status text is the string
  given (empty when none was), and the headers are the current ones overridden by the
  supplied ones, a supplied key winning over a current one. After
  \<open>writeHead(201, "Created")\<close> on any builder, \<open>json({})\<close> calls the constructor with
  the body \<open>{}\<close>, status 201, status text \<open>Created\<close> and the builder's headers with
  the content type; it returns the constructor's response, and rethrows a refusal by
  the constructor as \<open>Failed to serialize response to JSON: ...\<close>. On a new builder the
  standard constructor accepts, and the response has status 201 and status text
  \<open>Created\<close>.
\<close>

theorem writeHead_checks:
  fixes res :: router_response and stText hs :: "'f js_value" and ctor :: response_ctor
  shows
  "(\<forall>st. typeof st \<noteq> ''number'' \<longrightarrow>
      writeHead res st stText hs = Inl (Error ''Status must be a number between 100 and 599''))
   \<and> (\<forall>x. x < 100 \<or> x > 599 \<longrightarrow>
      writeHead res (JNum (Finite x)) stText hs
        = Inl (Error ''Status must be a number between 100 and 599''))
   \<and> writeHead res (JNum PosInfinity) stText hs
        = Inl (Error ''Status must be a number between 100 and 599'')
   \<and> writeHead res (JNum NegInfinity) stText hs
        = Inl (Error ''Status must be a number between 100 and 599'')
   \<and> (\<forall>n. n = NaN \<or> (\<exists>x. n = Finite x \<and> 100 \<le> x \<and> x \<le> 599) \<longrightarrow>
      writeHead res (JNum n) stText hs =
        (if truthy stText \<and> typeof stText \<noteq> ''string''
         then Inl (Error ''Status text must be a string'')
         else if truthy hs \<and> typeof hs \<noteq> ''object''
         then Inl (Error ''Headers must be an object'')
         else Inr \<lparr>header = (case hs of JObj supplied \<Rightarrow> header res ++ supplied | _ \<Rightarrow> header res),
                   status = n,
                   statusText = (case stText of JStr t \<Rightarrow> t | _ \<Rightarrow> [])\<rparr>))
   \<and> (\<forall>supplied k. (header res ++ supplied) k
         = (case supplied k of Some v \<Rightarrow> Some v | None \<Rightarrow> header res k))
   \<and> (\<exists>res'. writeHead res (JNum (Finite 201)) (JStr ''Created'' :: 'f js_value) JUndefined = Inr res'
         \<and> RouterResponse_json ctor res' (Some (JObject [])) =
             (case ctor (Stringified (JObject [])) (Finite 201) ''Created''
                     ((header res)(''Content-Type'' \<mapsto> ''application/json'')) of
                Inl msg \<Rightarrow> Inl (Error (''Failed to serialize response to JSON: '' @ msg))
              | Inr r \<Rightarrow> Inr r))
   \<and> (\<exists>res'. writeHead RouterResponse (JNum (Finite 201)) (JStr ''Created'' :: 'f js_value)
                 JUndefined = Inr res'
         \<and> RouterResponse_json standard_Response res' (Some (JObject [])) =
             Inr \<lparr>resp_body = Stringified (JObject []),
                   resp_status = Finite 201,
                   resp_statusText = ''Created'',
                   resp_headers = (header RouterResponse)(''Content-Type'' \<mapsto> ''application/json'')\<rparr>)"
proof -
  have a: "writeHead res st stText hs = Inl (Error ''Status must be a number between 100 and 599'')"
    if "typeof st \<noteq> ''number''" for st :: "'f js_value"
    using that by (cases st) (simp_all add: writeHead_def)
  have b: "writeHead res (JNum (Finite x)) stText hs
        = Inl (Error ''Status must be a number between 100 and 599'')"
    if "x < 100 \<or> x > 599" for x
    using that by (auto simp: writeHead_def)
  have i: "writeHead res (JNum PosInfinity) stText hs
        = Inl (Error ''Status must be a number between 100 and 599'')"
    "writeHead res (JNum NegInfinity) stText hs
        = Inl (Error ''Status must be a number between 100 and 599'')"
    by (simp_all add: writeHead_def)
  have c: "writeHead res (JNum n) stText hs =
        (if truthy stText \<and> typeof stText \<noteq> ''string''
         then Inl (Error ''Status text must be a string'')
         else if truthy hs \<and> typeof hs \<noteq> ''object''
         then Inl (Error ''Headers must be an object'')
         else Inr \<lparr>header = (case hs of JObj supplied \<Rightarrow> header res ++ supplied | _ \<Rightarrow> header res),
                   status = n,
                   statusText = (case stText of JStr t \<Rightarrow> t | _ \<Rightarrow> [])\<rparr>)"
    if "n = NaN \<or> (\<exists>x. n = Finite x \<and> 100 \<le> x \<and> x \<le> 599)" for n
  proof -
    from that have "\<not> num_less n 100" and "\<not> num_greater n 599" by auto
    then show ?thesis
      by (cases res; cases hs) (simp_all add: writeHead_def)
  qed
  have d: "(header res ++ supplied) k
         = (case supplied k of Some v \<Rightarrow> Some v | None \<Rightarrow> header res k)" for supplied k
    by (simp add: map_add_def split: option.splits)
  have e: "\<exists>res'. writeHead res (JNum (Finite 201)) (JStr ''Created'' :: 'f js_value) JUndefined = Inr res'
         \<and> RouterResponse_json ctor res' (Some (JObject [])) =
             (case ctor (Stringified (JObject [])) (Finite 201) ''Created''
                     ((header res)(''Content-Type'' \<mapsto> ''application/json'')) of
                Inl msg \<Rightarrow> Inl (Error (''Failed to serialize response to JSON: '' @ msg))
              | Inr r \<Rightarrow> Inr r)" for res ctor
    by (simp add: writeHead_def RouterResponse_json_def RouterResponse_json_try_def
          status_or_200_def statusText_or_OK_def)
  have std: "standard_Response (Stringified (JObject [])) (Finite 201) ''Created''
       ((header RouterResponse)(''Content-Type'' \<mapsto> ''application/json''))
     = Inr \<lparr>resp_body = Stringified (JObject []),
             resp_status = Finite 201,
             resp_statusText = ''Created'',
             resp_headers = (header RouterResponse)(''Content-Type'' \<mapsto> ''application/json'')\<rparr>"
    by (simp add: standard_Response_def to_unsigned_short_def reason_phrase_char_def
          null_body_status_def headers_ok_new_builder)
  have f: "\<exists>res'. writeHead RouterResponse (JNum (Finite 201)) (JStr ''Created'' :: 'f js_value)
                 JUndefined = Inr res'
         \<and> RouterResponse_json standard_Response res' (Some (JObject [])) =
             Inr \<lparr>resp_body = Stringified (JObject []),
                   resp_status = Finite 201,
                   resp_statusText = ''Created'',
                   resp_headers = (header RouterResponse)(''Content-Type'' \<mapsto> ''application/json'')\<rparr>"
    using e[of RouterResponse standard_Response] by (simp only: std sum.case)
  from a b i c d e[of res ctor] f show ?thesis by blast
qed

text \<open>
  On the new builder: \<open>writeHead("bad")\<close>, \<open>writeHead(999)\<close> and \<open>writeHead(Infinity)\<close>
  throw the status error, \<open>writeHead(201, 7)\<close> the status text error,
  \<open>writeHead(201, "Created", "x")\<close> the headers error, and
  \<open>writeHead(201, "Created", {Server: "mine"})\<close> returns with the \<open>Server\<close> header
  replaced. After \<open>writeHead(204)\<close>, which passes the checks, \<open>json({})\<close> throws,
  since the standard constructor gives no response of status 204 a body.
\<close>

theorem writeHead_checks_witness:
  "writeHead RouterResponse (JStr ''bad'' :: unit js_value) JUndefined JUndefined
      = Inl (Error ''Status must be a number between 100 and 599'')
   \<and> writeHead RouterResponse (JNum (Finite 999) :: unit js_value) JUndefined JUndefined
      = Inl (Error ''Status must be a number between 100 and 599'')
   \<and> writeHead RouterResponse (JNum PosInfinity :: unit js_value) JUndefined JUndefined
      = Inl (Error ''Status must be a number between 100 and 599'')
   \<and> writeHead RouterResponse (JNum (Finite 201) :: unit js_value) (JNum (Finite 7)) JUndefined
      = Inl (Error ''Status text must be a string'')
   \<and> writeHead RouterResponse (JNum (Finite 201) :: unit js_value) (JStr ''Created'') (JStr ''x'')
      = Inl (Error ''Headers must be an object'')
   \<and> writeHead RouterResponse (JNum (Finite 201) :: unit js_value) (JStr ''Created'')
        (JObj [''Server'' \<mapsto> ''mine''])
      = Inr \<lparr>header = header RouterResponse ++ [''Server'' \<mapsto> ''mine''],
             status = Finite 201, statusText = ''Created''\<rparr>
   \<and> (header RouterResponse ++ [''Server'' \<mapsto> ''mine'']) ''Server'' = Some ''mine''
   \<and> RouterResponse_json standard_Response
        (RouterResponse\<lparr>status := Finite 204, statusText := []\<rparr>) (Some (JObject []))
      = Inl (Error ''Failed to serialize response to JSON: status allows no body'')"
proof -
  have no_body: "RouterResponse_json standard_Response
        (RouterResponse\<lparr>status := Finite 204, statusText := []\<rparr>) (Some (JObject []))
      = Inl (Error ''Failed to serialize response to JSON: status allows no body'')"
    using headers_ok_new_builder
    by (simp add: RouterResponse_json_def RouterResponse_json_try_def status_or_200_def
          statusText_or_OK_def standard_Response_def to_unsigned_short_def
          reason_phrase_char_def null_body_status_def)
  show ?thesis
    using writeHead_checks[of RouterResponse "JUndefined :: unit js_value" "JUndefined" standard_Response]
      writeHead_checks[of RouterResponse "JNum (Finite 7) :: unit js_value" "JUndefined" standard_Response]
      writeHead_checks[of RouterResponse "JStr ''Created'' :: unit js_value" "JStr ''x''" standard_Response]
      writeHead_checks[of RouterResponse "JStr ''Created'' :: unit js_value"
        "JObj [''Server'' \<mapsto> ''mine'']" standard_Response]
      no_body
    by simp
qed

subsection \<open>Dispatch: evaluation and loop lemmas\<close>

lemma fetch_try_dispatch:
  assumes "raw_url rq = Some s" "URL (Some s) = Some parsed"
    and "RouterRequest URL (Some rq) = Inr req"
  shows "fetch_try URL ext this (Some rq) env ctx u =
    (case run_middlewares (middlewares this) env ctx (req, RouterResponse, u) of
       (Inl f, w) \<Rightarrow> (Inl f, user_state w)
     | (Inr (Some v), w) \<Rightarrow> (Inr v, user_state w)
     | (Inr None, w) \<Rightarrow>
         (case run_routes ext (routes this) (pathname parsed) (raw_method rq) env ctx w of
            (Inl f, w') \<Rightarrow> (Inl f, user_state w')
          | (Inr (Some v), w') \<Rightarrow> (Inr v, user_state w')
          | (Inr None, w') \<Rightarrow>
              (Inr (IsResponse (errorResponse (Finite 404) ''Not Found''
                 (Some (''Route '' @ raw_method rq @ '' '' @ pathname parsed @ '' not found'')))),
               user_state w')))"
  using assms by (simp add: fetch_try_def)

lemma run_middlewares_append:
  assumes "run_middlewares earlier env ctx w = (Inr None, w1)"
  shows "run_middlewares (earlier @ later) env ctx w = run_middlewares later env ctx w1"
  using assms
proof (induction earlier arbitrary: w)
  case Nil
  then show ?case by simp
next
  case (Cons m earlier)
  then show ?case
    by (auto split: prod.splits outcome.splits returned.splits sum.splits)
qed


lemma run_routes_misses:
  assumes "list_all (misses ext path meth) earlier"
  shows "run_routes ext (earlier @ later) path meth env ctx w = run_routes ext later path meth env ctx w"
  using assms
  by (induction earlier) (auto simp: misses_def split: sum.splits option.splits)

lemma fetch_total: "\<exists>v u'. fetch URL ext this request env ctx u = (Inr v, u')"
  by (cases "fetch_try URL ext this request env ctx u"; cases "fst (fetch_try URL ext this request env ctx u)")
     (auto simp: fetch_def)


lemmas matcher_defs =
  matchRoute_def RegExp_match_def regexPattern_def paramNames_def rx_parse_def group_text_def
  colon_def non_slash_def slash_def syntax_char_def line_terminator_def assign_params_def
  set_prop_def capture_at_def upt_rec

lemmas sample_defs =
  sample_URL_def sample_request_def sample_engine_def logs_def RouterRequest_def RouterResponse_def
  errorResponse_def user_state_def set_params_def Router_def

subsection \<open>\<open>fetch\<close> settles with a value\<close>

text \<open>
  Claim C4. For every platform, router, request, environment and state, the promise
  \<open>fetch\<close> returns is fulfilled, never rejected: no exception reaches the caller. When
  the raw request is absent or its url is not a string, the value is the 400 error
  response \<open>Invalid request object\<close>, and nothing else has happened. Whenever the \<open>try\<close>
  block of \<open>fetch\<close> ends with a failure, whatever it is and wherever it arose, the value
  is the 500 error response with the fixed message \<open>Failed to process request\<close>.
\<close>

theorem fetch_never_rejects:
  "(\<exists>v u'. fetch URL ext this request env ctx u = (Inr v, u'))
   \<and> ((request = None \<or> (\<exists>rq. request = Some rq \<and> raw_url rq = None)) \<longrightarrow>
        fetch URL ext this request env ctx u =
          (Inr (IsResponse
            \<lparr>resp_body = Stringified (JObject [(''error'', JString ''Invalid request object''),
                                               (''status'', JNumber (Finite 400))]),
             resp_status = Finite 400,
             resp_statusText = ''Invalid request object'',
             resp_headers = [''Content-Type'' \<mapsto> ''application/json'',
                             ''Access-Control-Allow-Origin'' \<mapsto> ''*'']\<rparr>), u))
   \<and> (\<forall>f u'. fetch_try URL ext this request env ctx u = (Inl f, u') \<longrightarrow>
        fetch URL ext this request env ctx u =
          (Inr (IsResponse
            \<lparr>resp_body = Stringified (JObject [(''error'', JString ''Internal Server Error''),
                                               (''status'', JNumber (Finite 500)),
                                               (''message'', JString ''Failed to process request'')]),
             resp_status = Finite 500,
             resp_statusText = ''Internal Server Error'',
             resp_headers = [''Content-Type'' \<mapsto> ''application/json'',
                             ''Access-Control-Allow-Origin'' \<mapsto> ''*'']\<rparr>), u'))"
proof (intro conjI)
  show "\<exists>v u'. fetch URL ext this request env ctx u = (Inr v, u')"
    by (rule fetch_total)
next
  show "(request = None \<or> (\<exists>rq. request = Some rq \<and> raw_url rq = None)) \<longrightarrow>
        fetch URL ext this request env ctx u =
          (Inr (IsResponse
            \<lparr>resp_body = Stringified (JObject [(''error'', JString ''Invalid request object''),
                                               (''status'', JNumber (Finite 400))]),
             resp_status = Finite 400,
             resp_statusText = ''Invalid request object'',
             resp_headers = [''Content-Type'' \<mapsto> ''application/json'',
                             ''Access-Control-Allow-Origin'' \<mapsto> ''*'']\<rparr>), u)"
    by (auto simp: fetch_def fetch_try_def errorResponse_def)
next
  show "\<forall>f u'. fetch_try URL ext this request env ctx u = (Inl f, u') \<longrightarrow>
        fetch URL ext this request env ctx u =
          (Inr (IsResponse
            \<lparr>resp_body = Stringified (JObject [(''error'', JString ''Internal Server Error''),
                                               (''status'', JNumber (Finite 500)),
                                               (''message'', JString ''Failed to process request'')]),
             resp_status = Finite 500,
             resp_statusText = ''Internal Server Error'',
             resp_headers = [''Content-Type'' \<mapsto> ''application/json'',
                             ''Access-Control-Allow-Origin'' \<mapsto> ''*'']\<rparr>), u')"
    by (simp add: fetch_def errorResponse_def)
qed

text \<open>
  Three failures that reach the \<open>catch\<close> of \<open>fetch\<close>: a url the platform cannot parse,
  a route whose pattern is not a regular expression, a middleware that throws \<open>null\<close>.
\<close>

lemma fetch_try_bad_url:
  "fetch_try sample_URL sample_engine (Router :: (unit, unit, nat list) callback router)
     (Some (sample_request ''GET'' ''not a url'')) () () [] = (Inl TypeError, [])"
  by (simp add: fetch_try_def sample_defs)

lemma fetch_try_bad_pattern:
  "fetch_try sample_URL sample_engine
     \<lparr>routes = [\<lparr>route_url = ''/a('', route_callback = logs 1 (Returns NotResponse),
                  route_method = ''GET''\<rparr>],
      middlewares = [logs 0 (Returns NotResponse)]\<rparr>
     (Some (sample_request ''GET'' ''https://example.com/b'')) () () [] = (Inl SyntaxError, [0])"
  by (simp add: fetch_try_def sample_defs matcher_defs)

lemma fetch_try_throw_null:
  "fetch_try sample_URL sample_engine
     \<lparr>routes = [], middlewares = [logs 0 (Throws ThrownNullish)]\<rparr>
     (Some (sample_request ''GET'' ''https://example.com/b'')) () () [] = (Inl TypeError, [0])"
  by (simp add: fetch_try_def sample_defs)


text \<open>
  The absent request gives the 400 response; the three failures above give the generic
  500 response, after the middleware that had run.
\<close>

theorem fetch_never_rejects_witness:
  "fetch sample_URL sample_engine (Router :: (unit, unit, nat list) callback router) None () () []
     = (Inr (IsResponse
          \<lparr>resp_body = Stringified (JObject [(''error'', JString ''Invalid request object''),
                                             (''status'', JNumber (Finite 400))]),
           resp_status = Finite 400,
           resp_statusText = ''Invalid request object'',
           resp_headers = [''Content-Type'' \<mapsto> ''application/json'',
                           ''Access-Control-Allow-Origin'' \<mapsto> ''*'']\<rparr>), [])
   \<and> fetch sample_URL sample_engine (Router :: (unit, unit, nat list) callback router)
        (Some (sample_request ''GET'' ''not a url'')) () () []
     = (Inr (IsResponse
          \<lparr>resp_body = Stringified (JObject [(''error'', JString ''Internal Server Error''),
                                             (''status'', JNumber (Finite 500)),
                                             (''message'', JString ''Failed to process request'')]),
           resp_status = Finite 500,
           resp_statusText = ''Internal Server Error'',
           resp_headers = [''Content-Type'' \<mapsto> ''application/json'',
                           ''Access-Control-Allow-Origin'' \<mapsto> ''*'']\<rparr>), [])
   \<and> fetch sample_URL sample_engine
        \<lparr>routes = [\<lparr>route_url = ''/a('', route_callback = logs 1 (Returns NotResponse),
                     route_method = ''GET''\<rparr>],
         middlewares = [logs 0 (Returns NotResponse)]\<rparr>
        (Some (sample_request ''GET'' ''https://example.com/b'')) () () []
     = (Inr (IsResponse
          \<lparr>resp_body = Stringified (JObject [(''error'', JString ''Internal Server Error''),
                                             (''status'', JNumber (Finite 500)),
                                             (''message'', JString ''Failed to process request'')]),
           resp_status = Finite 500,
           resp_statusText = ''Internal Server Error'',
           resp_headers = [''Content-Type'' \<mapsto> ''application/json'',
                           ''Access-Control-Allow-Origin'' \<mapsto> ''*'']\<rparr>), [0])
   \<and> fetch sample_URL sample_engine
        \<lparr>routes = [], middlewares = [logs 0 (Throws ThrownNullish)]\<rparr>
        (Some (sample_request ''GET'' ''https://example.com/b'')) () () []
     = (Inr (IsResponse
          \<lparr>resp_body = Stringified (JObject [(''error'', JString ''Internal Server Error''),
                                             (''status'', JNumber (Finite 500)),
                                             (''message'', JString ''Failed to process request'')]),
           resp_status = Finite 500,
           resp_statusText = ''Internal Server Error'',
           resp_headers = [''Content-Type'' \<mapsto> ''application/json'',
                           ''Access-Control-Allow-Origin'' \<mapsto> ''*'']\<rparr>), [0])"
  using
    fetch_never_rejects[of sample_URL sample_engine
      "Router :: (unit, unit, nat list) callback router" None "()" "()" "[]"]
    fetch_never_rejects[of sample_URL sample_engine
      "Router :: (unit, unit, nat list) callback router"
      "Some (sample_request ''GET'' ''not a url'')" "()" "()" "[]"]
    fetch_never_rejects[of sample_URL sample_engine
      "\<lparr>routes = [\<lparr>route_url = ''/a('', route_callback = logs 1 (Returns NotResponse),
                     route_method = ''GET''\<rparr>],
         middlewares = [logs 0 (Returns NotResponse)]\<rparr>"
      "Some (sample_request ''GET'' ''https://example.com/b'')" "()" "()" "[]"]
    fetch_never_rejects[of sample_URL sample_engine
      "\<lparr>routes = [], middlewares = [logs 0 (Throws ThrownNullish)]\<rparr>"
      "Some (sample_request ''GET'' ''https://example.com/b'')" "()" "()" "[]"]
  by (simp only: fetch_try_bad_url fetch_try_bad_pattern fetch_try_throw_null) simp

subsection \<open>No route for the request\<close>

lemma run_routes_raise:
  assumes "list_all (misses ext path meth) earlier"
    and "matchRoute ext (route_url rt) path = Inl f"
  shows "run_routes ext (earlier @ rt # later) path meth env ctx w = (Inl f, w)"
  using assms(2) by (simp add: run_routes_misses[OF assms(1)])

text \<open>
  Claim C6, amended. Take a request that \<open>fetch\<close> dispatches up to the scan of the
  routes: its url is a string the platform parses, the wrapper is built, and every
  middleware returns without a response. When every route of the table misses it (the
  route's pattern is a regular expression that does not match the path, or it matches
  and the methods differ), the answer is the 404 error response: status 404, status
  text \<open>Not Found\<close>, and the body \<open>{error: "Not Found", status: 404, message: "Route
  METHOD path not found"}\<close> with the request's method and path. When the scan comes to
  a route whose pattern is not a regular expression, the constructor's error ends the
  scan and the answer is the generic 500 response, whatever the later routes are.
  Every response of the error builder has the headers
  \<open>Content-Type: application/json\<close> and \<open>Access-Control-Allow-Origin: *\<close>, and its body
  has no \<open>message\<close> field when the message is null.
\<close>

theorem unmatched_request_404:
  assumes "raw_url rq = Some s" and "URL (Some s) = Some parsed"
    and "RouterRequest URL (Some rq) = Inr req"
    and "run_middlewares (middlewares this) env ctx (req, RouterResponse, u) = (Inr None, w)"
  shows "(list_all (misses ext (pathname parsed) (raw_method rq)) (routes this) \<longrightarrow>
     fetch URL ext this (Some rq) env ctx u =
     (Inr (IsResponse
        \<lparr>resp_body = Stringified (JObject
           [(''error'', JString ''Not Found''),
            (''status'', JNumber (Finite 404)),
            (''message'', JString (''Route '' @ raw_method rq @ '' '' @ pathname parsed @ '' not found''))]),
         resp_status = Finite 404,
         resp_statusText = ''Not Found'',
         resp_headers = [''Content-Type'' \<mapsto> ''application/json'',
                         ''Access-Control-Allow-Origin'' \<mapsto> ''*'']\<rparr>), user_state w))
   \<and> (\<forall>earlier rt later f.
         routes this = earlier @ rt # later
         \<and> list_all (misses ext (pathname parsed) (raw_method rq)) earlier
         \<and> matchRoute ext (route_url rt) (pathname parsed) = Inl f \<longrightarrow>
     fetch URL ext this (Some rq) env ctx u =
     (Inr (IsResponse
        \<lparr>resp_body = Stringified (JObject
           [(''error'', JString ''Internal Server Error''),
            (''status'', JNumber (Finite 500)),
            (''message'', JString ''Failed to process request'')]),
         resp_status = Finite 500,
         resp_statusText = ''Internal Server Error'',
         resp_headers = [''Content-Type'' \<mapsto> ''application/json'',
                         ''Access-Control-Allow-Origin'' \<mapsto> ''*'']\<rparr>), user_state w))
   \<and> (\<forall>st stText m. resp_headers (errorResponse st stText m)
          = [''Content-Type'' \<mapsto> ''application/json'', ''Access-Control-Allow-Origin'' \<mapsto> ''*''])
   \<and> (\<forall>st stText. body_field (errorResponse st stText None) ''message'' = None)"
proof (intro conjI allI impI)
  assume all: "list_all (misses ext (pathname parsed) (raw_method rq)) (routes this)"
  have "run_routes ext (routes this @ []) (pathname parsed) (raw_method rq) env ctx w
      = run_routes ext [] (pathname parsed) (raw_method rq) env ctx w"
    using all by (rule run_routes_misses)
  then have "run_routes ext (routes this) (pathname parsed) (raw_method rq) env ctx w = (Inr None, w)"
    by simp
  then show "fetch URL ext this (Some rq) env ctx u =
     (Inr (IsResponse
        \<lparr>resp_body = Stringified (JObject
           [(''error'', JString ''Not Found''),
            (''status'', JNumber (Finite 404)),
            (''message'', JString (''Route '' @ raw_method rq @ '' '' @ pathname parsed @ '' not found''))]),
         resp_status = Finite 404,
         resp_statusText = ''Not Found'',
         resp_headers = [''Content-Type'' \<mapsto> ''application/json'',
                         ''Access-Control-Allow-Origin'' \<mapsto> ''*'']\<rparr>), user_state w)"
    using assms(4)
    by (simp add: fetch_def fetch_try_dispatch[OF assms(1-3)] errorResponse_def)
next
  fix earlier rt later f
  assume h: "routes this = earlier @ rt # later
         \<and> list_all (misses ext (pathname parsed) (raw_method rq)) earlier
         \<and> matchRoute ext (route_url rt) (pathname parsed) = Inl f"
  then have "run_routes ext (routes this) (pathname parsed) (raw_method rq) env ctx w = (Inl f, w)"
    using run_routes_raise[of ext "pathname parsed" "raw_method rq" earlier rt f later env ctx w]
    by simp
  then show "fetch URL ext this (Some rq) env ctx u =
     (Inr (IsResponse
        \<lparr>resp_body = Stringified (JObject
           [(''error'', JString ''Internal Server Error''),
            (''status'', JNumber (Finite 500)),
            (''message'', JString ''Failed to process request'')]),
         resp_status = Finite 500,
         resp_statusText = ''Internal Server Error'',
         resp_headers = [''Content-Type'' \<mapsto> ''application/json'',
                         ''Access-Control-Allow-Origin'' \<mapsto> ''*'']\<rparr>), user_state w)"
    using assms(4)
    by (simp add: fetch_def fetch_try_dispatch[OF assms(1-3)] errorResponse_def)
next
  fix st stText m
  show "resp_headers (errorResponse st stText m)
          = [''Content-Type'' \<mapsto> ''application/json'', ''Access-Control-Allow-Origin'' \<mapsto> ''*'']"
    by (simp add: errorResponse_def)
next
  fix st stText
  show "body_field (errorResponse st stText None) ''message'' = None"
    by (simp add: errorResponse_def body_field_def)
qed

text \<open>
  Claim C6 as it is worded fails: with the route \<open>GET /a(\<close> registered, which
  \<open>_addRoute\<close> accepts, the request \<open>GET /b\<close> matches no route, the pattern not being
  a regular expression, and the answer is the generic 500 response, not the 404.
\<close>

theorem unmatched_request_500_counterexample:
  "matchRoute sample_engine ''/a('' ''/b'' = Inl SyntaxError
   \<and> fetch sample_URL sample_engine
        \<lparr>routes = [\<lparr>route_url = ''/a('', route_callback = logs 1 (Returns NotResponse),
                     route_method = ''GET''\<rparr>],
         middlewares = []\<rparr>
        (Some (sample_request ''GET'' ''https://example.com/b'')) () () []
     = (Inr (IsResponse
          \<lparr>resp_body = Stringified (JObject [(''error'', JString ''Internal Server Error''),
                                             (''status'', JNumber (Finite 500)),
                                             (''message'', JString ''Failed to process request'')]),
           resp_status = Finite 500,
           resp_statusText = ''Internal Server Error'',
           resp_headers = [''Content-Type'' \<mapsto> ''application/json'',
                           ''Access-Control-Allow-Origin'' \<mapsto> ''*'']\<rparr>), [])"
  by (simp add: fetch_def fetch_try_def sample_defs matcher_defs)

text \<open>The wrapper of a sample request.\<close>

lemma sample_wrapper:
  "RouterRequest sample_URL (Some (sample_request meth (''https://example.com'' @ p))) =
     (if starts_with p ''/'' then Inr
       \<lparr>req_ipAddress = None, req_method = meth,
        req_url = \<lparr>pathname = p, searchParams = []\<rparr>,
        req_headers = HeadersAbsent,
        req_request = sample_request meth (''https://example.com'' @ p),
        req_query = Map.empty, req_params = None\<rparr>
      else Inl TypeError)"
  by (cases p) (simp_all add: RouterRequest_def sample_URL_def sample_request_def)

text \<open>
  \<open>POST /users/7\<close> on a router whose only route is \<open>GET /users/:id\<close>: the pattern
  matches, the method differs, and the answer is the 404 response naming \<open>POST\<close> and
  \<open>/users/7\<close>; the one middleware has run. With the route \<open>POST /a(\<close> registered
  after it, and \<open>POST /users/7\<close> after that one, the same request gets the generic 500
  response.
\<close>

theorem unmatched_request_404_witness:
  "fetch sample_URL sample_engine
     \<lparr>routes = [\<lparr>route_url = ''/users/:id'', route_callback = logs 1 (Returns NotResponse),
                  route_method = ''GET''\<rparr>],
      middlewares = [logs 0 (Returns NotResponse)]\<rparr>
     (Some (sample_request ''POST'' ''https://example.com/users/7'')) () () []
   = (Inr (IsResponse
        \<lparr>resp_body = Stringified (JObject
           [(''error'', JString ''Not Found''),
            (''status'', JNumber (Finite 404)),
            (''message'', JString ''Route POST /users/7 not found'')]),
         resp_status = Finite 404,
         resp_statusText = ''Not Found'',
         resp_headers = [''Content-Type'' \<mapsto> ''application/json'',
                         ''Access-Control-Allow-Origin'' \<mapsto> ''*'']\<rparr>), [0])
   \<and> fetch sample_URL sample_engine
     \<lparr>routes = [\<lparr>route_url = ''/users/:id'', route_callback = logs 1 (Returns NotResponse),
                  route_method = ''GET''\<rparr>,
                \<lparr>route_url = ''/a('', route_callback = logs 2 (Returns NotResponse),
                  route_method = ''POST''\<rparr>,
                \<lparr>route_url = ''/users/7'', route_callback = logs 3 (Returns NotResponse),
                  route_method = ''POST''\<rparr>],
      middlewares = [logs 0 (Returns NotResponse)]\<rparr>
     (Some (sample_request ''POST'' ''https://example.com/users/7'')) () () []
   = (Inr (IsResponse
        \<lparr>resp_body = Stringified (JObject
           [(''error'', JString ''Internal Server Error''),
            (''status'', JNumber (Finite 500)),
            (''message'', JString ''Failed to process request'')]),
         resp_status = Finite 500,
         resp_statusText = ''Internal Server Error'',
         resp_headers = [''Content-Type'' \<mapsto> ''application/json'',
                         ''Access-Control-Allow-Origin'' \<mapsto> ''*'']\<rparr>), [0])"
proof -
  let ?rq = "sample_request ''POST'' ''https://example.com/users/7''"
  let ?r1 = "\<lparr>route_url = ''/users/:id'',
                   route_callback = logs 1 (Returns NotResponse) :: (unit, unit, nat list) callback,
                   route_method = ''GET''\<rparr>"
  let ?r2 = "\<lparr>route_url = ''/a('',
                   route_callback = logs 2 (Returns NotResponse) :: (unit, unit, nat list) callback,
                   route_method = ''POST''\<rparr>"
  let ?r3 = "\<lparr>route_url = ''/users/7'',
                   route_callback = logs 3 (Returns NotResponse) :: (unit, unit, nat list) callback,
                   route_method = ''POST''\<rparr>"
  let ?app = "\<lparr>routes = [?r1], middlewares = [logs 0 (Returns NotResponse)]\<rparr>"
  let ?app2 = "\<lparr>routes = [?r1, ?r2, ?r3], middlewares = [logs 0 (Returns NotResponse)]\<rparr>"
  let ?parsed = "\<lparr>pathname = ''/users/7'', searchParams = []\<rparr>"
  let ?req = "\<lparr>req_ipAddress = None, req_method = ''POST'', req_url = ?parsed,
        req_headers = HeadersAbsent, req_request = ?rq,
        req_query = Map.empty, req_params = None\<rparr>"
  have 1: "raw_url ?rq = Some ''https://example.com/users/7''"
    by (simp add: sample_request_def)
  have 2: "sample_URL (Some ''https://example.com/users/7'') = Some ?parsed"
    by (simp add: sample_URL_def)
  have 3: "RouterRequest sample_URL (Some ?rq) = Inr ?req"
    using sample_wrapper[of "''POST''" "''/users/7''"] by simp
  have 4: "run_middlewares (middlewares ?app) () () (?req, RouterResponse, [])
            = (Inr None, (?req, RouterResponse, [0]))"
    by (simp add: logs_def)
  have 7: "run_middlewares (middlewares ?app2) () () (?req, RouterResponse, [])
            = (Inr None, (?req, RouterResponse, [0]))"
    by (simp add: logs_def)
  have 5: "list_all (misses sample_engine (pathname ?parsed) (raw_method ?rq)) (routes ?app)"
    by (simp add: misses_def sample_request_def matcher_defs)
  have 6: "routes ?app2 = [?r1] @ ?r2 # [?r3]
         \<and> list_all (misses sample_engine (pathname ?parsed) (raw_method ?rq)) [?r1]
         \<and> matchRoute sample_engine (route_url ?r2) (pathname ?parsed) = Inl SyntaxError"
    by (simp add: misses_def sample_request_def sample_defs matcher_defs)
  note T = unmatched_request_404[OF 1 2 3 4]
  note A = T[THEN conjunct1, rule_format, OF 5]
  note T' = unmatched_request_404[OF 1 2 3 7]
  note B = T'[THEN conjunct2, THEN conjunct1, rule_format, OF 6]
  from A have a: "fetch sample_URL sample_engine ?app (Some ?rq) () () []
   = (Inr (IsResponse
        \<lparr>resp_body = Stringified (JObject
           [(''error'', JString ''Not Found''),
            (''status'', JNumber (Finite 404)),
            (''message'', JString ''Route POST /users/7 not found'')]),
         resp_status = Finite 404,
         resp_statusText = ''Not Found'',
         resp_headers = [''Content-Type'' \<mapsto> ''application/json'',
                         ''Access-Control-Allow-Origin'' \<mapsto> ''*'']\<rparr>), [0])"
    by (simp add: sample_request_def user_state_def)
  from B have b: "fetch sample_URL sample_engine ?app2 (Some ?rq) () () []
   = (Inr (IsResponse
        \<lparr>resp_body = Stringified (JObject
           [(''error'', JString ''Internal Server Error''),
            (''status'', JNumber (Finite 500)),
            (''message'', JString ''Failed to process request'')]),
         resp_status = Finite 500,
         resp_statusText = ''Internal Server Error'',
         resp_headers = [''Content-Type'' \<mapsto> ''application/json'',
                         ''Access-Control-Allow-Origin'' \<mapsto> ''*'']\<rparr>), [0])"
    by (simp add: user_state_def)
  from a b show ?thesis by (rule conjI)
qed

subsection \<open>Middleware run in order and a response stops the dispatch\<close>




subsection \<open>Failures thrown by middleware and handlers\<close>

lemma run_routes_hit:
  assumes "list_all (misses ext path meth) earlier"
    and "matchRoute ext (route_url rt) path = Inr (Some ps)"
    and "route_method rt = meth"
  shows "run_routes ext (earlier @ rt # later) path meth env ctx w =
    (case route_callback rt env ctx (set_params ps w) of
       (Returns v, w') \<Rightarrow> (Inr (Some v), w')
     | (Throws err, w') \<Rightarrow>
         (case message_of err of
            Inl f \<Rightarrow> (Inl f, w')
          | Inr msg \<Rightarrow>
              (Inr (Some (IsResponse (errorResponse (Finite 500) ''Internal Server Error'' msg))), w')))"
  using assms(2,3) by (simp add: run_routes_misses[OF assms(1)])

lemma fetch_hit:
  assumes "raw_url rq = Some s" and "URL (Some s) = Some parsed"
    and "RouterRequest URL (Some rq) = Inr req"
    and "run_middlewares (middlewares this) env ctx (req, RouterResponse, u) = (Inr None, w)"
    and "routes this = earlier @ rt # later"
    and "list_all (misses ext (pathname parsed) (raw_method rq)) earlier"
    and "matchRoute ext (route_url rt) (pathname parsed) = Inr (Some ps)"
    and "route_method rt = raw_method rq"
  shows "fetch URL ext this (Some rq) env ctx u =
    (case route_callback rt env ctx (set_params ps w) of
       (Returns v, w') \<Rightarrow> (Inr v, user_state w')
     | (Throws err, w') \<Rightarrow>
         (Inr (IsResponse (errorResponse (Finite 500) ''Internal Server Error''
            (case err of
               ThrownError m \<Rightarrow> Some m
             | ThrownOther \<Rightarrow> None
             | ThrownNullish \<Rightarrow> Some ''Failed to process request''))), user_state w'))"
  using assms(4)
  by (simp add: fetch_def fetch_try_dispatch[OF assms(1-3)] assms(5)
        run_routes_hit[OF assms(6-8)]
      split: prod.splits outcome.splits thrown.splits)

lemma fetch_middleware_throws:
  assumes "raw_url rq = Some s" and "URL (Some s) = Some parsed"
    and "RouterRequest URL (Some rq) = Inr req"
    and "middlewares this = earlier @ m # later"
    and "run_middlewares earlier env ctx (req, RouterResponse, u) = (Inr None, w)"
    and "m env ctx w = (Throws err, w')"
  shows "fetch URL ext this (Some rq) env ctx u =
     (Inr (IsResponse
       (case err of
          ThrownError msg \<Rightarrow> errorResponse (Finite 500) ''Middleware Error'' (Some msg)
        | ThrownOther \<Rightarrow> errorResponse (Finite 500) ''Middleware Error'' None
        | ThrownNullish \<Rightarrow> errorResponse (Finite 500) ''Internal Server Error''
                             (Some ''Failed to process request''))), user_state w')"
  using assms(6)
  by (simp add: fetch_def fetch_try_dispatch[OF assms(1-3)] assms(4)
        run_middlewares_append[OF assms(5)] split: thrown.splits)


lemma errorResponse_fields:
  "resp_status (errorResponse st stText m) = st"
  "body_field (errorResponse st stText m) ''status'' = Some (JNumber st)"
  "body_field (errorResponse st stText m) ''error'' = Some (JString stText)"
  "body_field (errorResponse st stText m) ''message''
     = (case m of None \<Rightarrow> None | Some t \<Rightarrow> if t \<noteq> [] then Some (JString t) else None)"
  by (simp_all add: errorResponse_def body_field_def split: option.splits)

text \<open>
  Claim C5, amended. In a dispatch, when a middleware throws at its turn, or the handler
  of the first route that matches path and method throws, \<open>fetch\<close> is fulfilled with
  an error response of status 500 whose body has an \<open>error\<close> field and \<open>status: 500\<close>;
  nothing is rejected. When the thrown value is an error with a non-empty message, the
  body carries that message under \<open>message\<close>, with \<open>error\<close> being \<open>Middleware Error\<close>
  for a middleware and \<open>Internal Server Error\<close> for a handler. When the thrown value
  has an empty message or none, \<open>error\<close> is the same and the body has no \<open>message\<close>
  field, by the test \<open>if (message)\<close> of the error builder. When the thrown value is
  \<open>null\<close> or \<open>undefined\<close>, reading its message fails inside the handler of the
  failure, and the response is the generic one: \<open>error\<close> is \<open>Internal Server Error\<close>
  and \<open>message\<close> is \<open>Failed to process request\<close>, for a middleware and for a handler.
\<close>

theorem thrown_failure_500:
  assumes "raw_url rq = Some s" and "URL (Some s) = Some parsed"
    and "RouterRequest URL (Some rq) = Inr req"
  shows
   "(\<forall>earlier m later w err w'.
       middlewares this = earlier @ m # later
       \<and> run_middlewares earlier env ctx (req, RouterResponse, u) = (Inr None, w)
       \<and> m env ctx w = (Throws err, w')
       \<longrightarrow> (\<exists>r. fetch URL ext this (Some rq) env ctx u = (Inr (IsResponse r), user_state w')
              \<and> resp_status r = Finite 500
              \<and> body_field r ''status'' = Some (JNumber (Finite 500))
              \<and> body_field r ''error'' =
                  (case err of
                     ThrownError msg \<Rightarrow> Some (JString ''Middleware Error'')
                   | ThrownOther \<Rightarrow> Some (JString ''Middleware Error'')
                   | ThrownNullish \<Rightarrow> Some (JString ''Internal Server Error''))
              \<and> body_field r ''message'' =
                  (case err of
                     ThrownError msg \<Rightarrow> if msg \<noteq> [] then Some (JString msg) else None
                   | ThrownOther \<Rightarrow> None
                   | ThrownNullish \<Rightarrow> Some (JString ''Failed to process request''))))
    \<and> (\<forall>w earlier rt later ps err w'.
       run_middlewares (middlewares this) env ctx (req, RouterResponse, u) = (Inr None, w)
       \<and> routes this = earlier @ rt # later
       \<and> list_all (misses ext (pathname parsed) (raw_method rq)) earlier
       \<and> matchRoute ext (route_url rt) (pathname parsed) = Inr (Some ps)
       \<and> route_method rt = raw_method rq
       \<and> route_callback rt env ctx (set_params ps w) = (Throws err, w')
       \<longrightarrow> (\<exists>r. fetch URL ext this (Some rq) env ctx u = (Inr (IsResponse r), user_state w')
              \<and> resp_status r = Finite 500
              \<and> body_field r ''status'' = Some (JNumber (Finite 500))
              \<and> body_field r ''error'' = Some (JString ''Internal Server Error'')
              \<and> body_field r ''message'' =
                  (case err of
                     ThrownError msg \<Rightarrow> if msg \<noteq> [] then Some (JString msg) else None
                   | ThrownOther \<Rightarrow> None
                   | ThrownNullish \<Rightarrow> Some (JString ''Failed to process request''))))"
proof (intro conjI allI impI)
  fix earlier m later w err w'
  assume h: "middlewares this = earlier @ m # later
       \<and> run_middlewares earlier env ctx (req, RouterResponse, u) = (Inr None, w)
       \<and> m env ctx w = (Throws err, w')"
  show "\<exists>r. fetch URL ext this (Some rq) env ctx u = (Inr (IsResponse r), user_state w')
              \<and> resp_status r = Finite 500
              \<and> body_field r ''status'' = Some (JNumber (Finite 500))
              \<and> body_field r ''error'' =
                  (case err of
                     ThrownError msg \<Rightarrow> Some (JString ''Middleware Error'')
                   | ThrownOther \<Rightarrow> Some (JString ''Middleware Error'')
                   | ThrownNullish \<Rightarrow> Some (JString ''Internal Server Error''))
              \<and> body_field r ''message'' =
                  (case err of
                     ThrownError msg \<Rightarrow> if msg \<noteq> [] then Some (JString msg) else None
                   | ThrownOther \<Rightarrow> None
                   | ThrownNullish \<Rightarrow> Some (JString ''Failed to process request''))"
    using fetch_middleware_throws[OF assms, of this earlier m later env ctx u w err w' ext] h
    by (cases err) (simp_all add: errorResponse_fields)
next
  fix w earlier rt later ps err w'
  assume h: "run_middlewares (middlewares this) env ctx (req, RouterResponse, u) = (Inr None, w)
       \<and> routes this = earlier @ rt # later
       \<and> list_all (misses ext (pathname parsed) (raw_method rq)) earlier
       \<and> matchRoute ext (route_url rt) (pathname parsed) = Inr (Some ps)
       \<and> route_method rt = raw_method rq
       \<and> route_callback rt env ctx (set_params ps w) = (Throws err, w')"
  then have "fetch URL ext this (Some rq) env ctx u =
     (Inr (IsResponse (errorResponse (Finite 500) ''Internal Server Error''
            (case err of
               ThrownError m \<Rightarrow> Some m
             | ThrownOther \<Rightarrow> None
             | ThrownNullish \<Rightarrow> Some ''Failed to process request''))), user_state w')"
    using fetch_hit[OF assms, of this env ctx u w earlier rt later ext ps] by simp
  then show "\<exists>r. fetch URL ext this (Some rq) env ctx u = (Inr (IsResponse r), user_state w')
              \<and> resp_status r = Finite 500
              \<and> body_field r ''status'' = Some (JNumber (Finite 500))
              \<and> body_field r ''error'' = Some (JString ''Internal Server Error'')
              \<and> body_field r ''message'' =
                  (case err of
                     ThrownError msg \<Rightarrow> if msg \<noteq> [] then Some (JString msg) else None
                   | ThrownOther \<Rightarrow> None
                   | ThrownNullish \<Rightarrow> Some (JString ''Failed to process request''))"
    by (cases err) (simp_all add: errorResponse_fields)
qed


text \<open>
  Claim C5 as it is worded fails for a failure whose message is empty: for a handler
  that does \<open>throw new Error()\<close> the body of the 500 response is
  \<open>{error: "Internal Server Error", status: 500}\<close>, without a \<open>message\<close> field.
\<close>

theorem thrown_failure_500_counterexample:
  "fetch sample_URL sample_engine
     \<lparr>routes = [\<lparr>route_url = ''/error'', route_callback = logs 1 (Throws (ThrownError [])),
                  route_method = ''GET''\<rparr>],
      middlewares = []\<rparr>
     (Some (sample_request ''GET'' ''https://example.com/error'')) () () []
   = (Inr (IsResponse
        \<lparr>resp_body = Stringified (JObject
           [(''error'', JString ''Internal Server Error''),
            (''status'', JNumber (Finite 500))]),
         resp_status = Finite 500,
         resp_statusText = ''Internal Server Error'',
         resp_headers = [''Content-Type'' \<mapsto> ''application/json'',
                         ''Access-Control-Allow-Origin'' \<mapsto> ''*'']\<rparr>), [1])
   \<and> body_field
        \<lparr>resp_body = Stringified (JObject
           [(''error'', JString ''Internal Server Error''),
            (''status'', JNumber (Finite 500))]),
         resp_status = Finite 500,
         resp_statusText = ''Internal Server Error'',
         resp_headers = [''Content-Type'' \<mapsto> ''application/json'',
                         ''Access-Control-Allow-Origin'' \<mapsto> ''*'']\<rparr> ''message'' = None"
  by (simp add: fetch_def fetch_try_def sample_defs matcher_defs body_field_def)

text \<open>
  A handler that throws \<open>Error("Something went wrong!")\<close> after a middleware that
  passes; a middleware that throws \<open>Error("boom")\<close>; a middleware that throws \<open>null\<close>;
  and a middleware that throws a value without a message.
\<close>

theorem thrown_failure_500_witness:
  "(\<exists>r. fetch sample_URL sample_engine
         \<lparr>routes = [\<lparr>route_url = ''/error'',
                      route_callback = logs 3 (Throws (ThrownError ''Something went wrong!'')),
                      route_method = ''GET''\<rparr>],
          middlewares = [logs 1 (Returns NotResponse)]\<rparr>
         (Some (sample_request ''GET'' ''https://example.com/error'')) () () []
        = (Inr (IsResponse r), [1, 3])
      \<and> resp_status r = Finite 500
      \<and> body_field r ''error'' = Some (JString ''Internal Server Error'')
      \<and> body_field r ''message'' = Some (JString ''Something went wrong!''))
   \<and> (\<exists>r. fetch sample_URL sample_engine
         \<lparr>routes = [\<lparr>route_url = ''/error'',
                      route_callback = logs 3 (Throws (ThrownError ''Something went wrong!'')),
                      route_method = ''GET''\<rparr>],
          middlewares = [logs 1 (Returns NotResponse), logs 2 (Throws (ThrownError ''boom''))]\<rparr>
         (Some (sample_request ''GET'' ''https://example.com/error'')) () () []
        = (Inr (IsResponse r), [1, 2])
      \<and> resp_status r = Finite 500
      \<and> body_field r ''error'' = Some (JString ''Middleware Error'')
      \<and> body_field r ''message'' = Some (JString ''boom''))
   \<and> (\<exists>r. fetch sample_URL sample_engine
         \<lparr>routes = [\<lparr>route_url = ''/error'',
                      route_callback = logs 3 (Throws (ThrownError ''Something went wrong!'')),
                      route_method = ''GET''\<rparr>],
          middlewares = [logs 1 (Returns NotResponse), logs 4 (Throws ThrownNullish)]\<rparr>
         (Some (sample_request ''GET'' ''https://example.com/error'')) () () []
        = (Inr (IsResponse r), [1, 4])
      \<and> resp_status r = Finite 500
      \<and> body_field r ''error'' = Some (JString ''Internal Server Error'')
      \<and> body_field r ''message'' = Some (JString ''Failed to process request''))
   \<and> (\<exists>r. fetch sample_URL sample_engine
         \<lparr>routes = [\<lparr>route_url = ''/error'',
                      route_callback = logs 3 (Throws (ThrownError ''Something went wrong!'')),
                      route_method = ''GET''\<rparr>],
          middlewares = [logs 1 (Returns NotResponse), logs 5 (Throws ThrownOther)]\<rparr>
         (Some (sample_request ''GET'' ''https://example.com/error'')) () () []
        = (Inr (IsResponse r), [1, 5])
      \<and> resp_status r = Finite 500
      \<and> body_field r ''error'' = Some (JString ''Middleware Error'')
      \<and> body_field r ''message'' = None)"
proof -
  let ?rq = "sample_request ''GET'' ''https://example.com/error''"
  let ?rt = "\<lparr>route_url = ''/error'',
               route_callback = logs 3 (Throws (ThrownError ''Something went wrong!''))
                  :: (unit, unit, nat list) callback,
               route_method = ''GET''\<rparr>"
  let ?m1 = "logs 1 (Returns NotResponse) :: (unit, unit, nat list) callback"
  let ?m2 = "logs 2 (Throws (ThrownError ''boom'')) :: (unit, unit, nat list) callback"
  let ?m4 = "logs 4 (Throws ThrownNullish) :: (unit, unit, nat list) callback"
  let ?m5 = "logs 5 (Throws ThrownOther) :: (unit, unit, nat list) callback"
  let ?app = "\<lparr>routes = [?rt], middlewares = [?m1]\<rparr>"
  let ?app2 = "\<lparr>routes = [?rt], middlewares = [?m1, ?m2]\<rparr>"
  let ?app4 = "\<lparr>routes = [?rt], middlewares = [?m1, ?m4]\<rparr>"
  let ?app5 = "\<lparr>routes = [?rt], middlewares = [?m1, ?m5]\<rparr>"
  let ?parsed = "\<lparr>pathname = ''/error'', searchParams = []\<rparr>"
  let ?req = "\<lparr>req_ipAddress = None, req_method = ''GET'', req_url = ?parsed,
        req_headers = HeadersAbsent, req_request = ?rq,
        req_query = Map.empty, req_params = None\<rparr>"
  have 1: "raw_url ?rq = Some ''https://example.com/error''"
    by (simp add: sample_request_def)
  have 2: "sample_URL (Some ''https://example.com/error'') = Some ?parsed"
    by (simp add: sample_URL_def)
  have 3: "RouterRequest sample_URL (Some ?rq) = Inr ?req"
    using sample_wrapper[of "''GET''" "''/error''"] by simp
  have mw: "run_middlewares [?m1] () () (?req, RouterResponse, []) = (Inr None, (?req, RouterResponse, [1]))"
    by (simp add: logs_def)
  have hit: "matchRoute sample_engine (route_url ?rt) (pathname ?parsed) = Inr (Some Map.empty)"
    by (simp add: matcher_defs)
  have handler: "run_middlewares (middlewares ?app) () () (?req, RouterResponse, []) = (Inr None, (?req, RouterResponse, [1]))
       \<and> routes ?app = [] @ ?rt # []
       \<and> list_all (misses sample_engine (pathname ?parsed) (raw_method ?rq)) []
       \<and> matchRoute sample_engine (route_url ?rt) (pathname ?parsed) = Inr (Some Map.empty)
       \<and> route_method ?rt = raw_method ?rq
       \<and> route_callback ?rt () () (set_params Map.empty (?req, RouterResponse, [1]))
          = (Throws (ThrownError ''Something went wrong!''),
             (?req\<lparr>req_params := Some Map.empty\<rparr>, RouterResponse, [1, 3]))"
    using mw hit by (simp add: sample_request_def logs_def set_params_def)
  have middleware: "middlewares ?app2 = [?m1] @ ?m2 # []
       \<and> run_middlewares [?m1] () () (?req, RouterResponse, []) = (Inr None, (?req, RouterResponse, [1]))
       \<and> ?m2 () () (?req, RouterResponse, [1])
          = (Throws (ThrownError ''boom''), (?req, RouterResponse, [1, 2]))"
    using mw by (simp add: logs_def)
  have nullish: "middlewares ?app4 = [?m1] @ ?m4 # []
       \<and> run_middlewares [?m1] () () (?req, RouterResponse, []) = (Inr None, (?req, RouterResponse, [1]))
       \<and> ?m4 () () (?req, RouterResponse, [1])
          = (Throws ThrownNullish, (?req, RouterResponse, [1, 4]))"
    using mw by (simp add: logs_def)
  have other: "middlewares ?app5 = [?m1] @ ?m5 # []
       \<and> run_middlewares [?m1] () () (?req, RouterResponse, []) = (Inr None, (?req, RouterResponse, [1]))
       \<and> ?m5 () () (?req, RouterResponse, [1])
          = (Throws ThrownOther, (?req, RouterResponse, [1, 5]))"
    using mw by (simp add: logs_def)
  note T = thrown_failure_500[OF 1 2 3]
  note A = T[THEN conjunct1, rule_format]
  note B = T[THEN conjunct2, rule_format]
  from B[OF handler] obtain r1 where
    "fetch sample_URL sample_engine ?app (Some ?rq) () () [] = (Inr (IsResponse r1), [1, 3])"
    "resp_status r1 = Finite 500"
    "body_field r1 ''error'' = Some (JString ''Internal Server Error'')"
    "body_field r1 ''message'' = Some (JString ''Something went wrong!'')"
    by (auto simp: user_state_def)
  then have c1: "\<exists>r. fetch sample_URL sample_engine ?app (Some ?rq) () () [] = (Inr (IsResponse r), [1, 3])
      \<and> resp_status r = Finite 500
      \<and> body_field r ''error'' = Some (JString ''Internal Server Error'')
      \<and> body_field r ''message'' = Some (JString ''Something went wrong!'')"
    by blast
  from A[OF middleware] obtain r2 where
    "fetch sample_URL sample_engine ?app2 (Some ?rq) () () [] = (Inr (IsResponse r2), [1, 2])"
    "resp_status r2 = Finite 500"
    "body_field r2 ''error'' = Some (JString ''Middleware Error'')"
    "body_field r2 ''message'' = Some (JString ''boom'')"
    by (auto simp: user_state_def)
  then have c2: "\<exists>r. fetch sample_URL sample_engine ?app2 (Some ?rq) () () [] = (Inr (IsResponse r), [1, 2])
      \<and> resp_status r = Finite 500
      \<and> body_field r ''error'' = Some (JString ''Middleware Error'')
      \<and> body_field r ''message'' = Some (JString ''boom'')"
    by blast
  from A[OF nullish] obtain r4 where
    "fetch sample_URL sample_engine ?app4 (Some ?rq) () () [] = (Inr (IsResponse r4), [1, 4])"
    "resp_status r4 = Finite 500"
    "body_field r4 ''error'' = Some (JString ''Internal Server Error'')"
    "body_field r4 ''message'' = Some (JString ''Failed to process request'')"
    by (auto simp: user_state_def)
  then have c3: "\<exists>r. fetch sample_URL sample_engine ?app4 (Some ?rq) () () [] = (Inr (IsResponse r), [1, 4])
      \<and> resp_status r = Finite 500
      \<and> body_field r ''error'' = Some (JString ''Internal Server Error'')
      \<and> body_field r ''message'' = Some (JString ''Failed to process request'')"
    by blast
  from A[OF other] obtain r5 where
    "fetch sample_URL sample_engine ?app5 (Some ?rq) () () [] = (Inr (IsResponse r5), [1, 5])"
    "resp_status r5 = Finite 500"
    "body_field r5 ''error'' = Some (JString ''Middleware Error'')"
    "body_field r5 ''message'' = None"
    by (auto simp: user_state_def)
  then have c4: "\<exists>r. fetch sample_URL sample_engine ?app5 (Some ?rq) () () [] = (Inr (IsResponse r), [1, 5])
      \<and> resp_status r = Finite 500
      \<and> body_field r ''error'' = Some (JString ''Middleware Error'')
      \<and> body_field r ''message'' = None"
    by blast
  from c1 c2 c3 c4 show ?thesis
    by (intro conjI)
qed

subsection \<open>When the wrapper has \<open>params\<close>\<close>

lemma RouterRequest_params_absent:
  "RouterRequest URL request = Inr req \<Longrightarrow> req_params req = None"
  by (auto simp: RouterRequest_def split: option.splits raw_headers.splits)

lemma run_middlewares_when_params_absent:
  assumes "req_params (fst w) = None" and "list_all keeps_params ms"
  shows "run_middlewares (map (\<lambda>m. when_params_absent m other) ms) env ctx w
       = run_middlewares ms env ctx w"
  using assms
proof (induction ms arbitrary: w)
  case Nil
  then show ?case by simp
next
  case (Cons m ms)
  obtain out w' where step: "m env ctx w = (out, w')"
    by (cases "m env ctx w")
  from Cons.prems(2) have "keeps_params m" and rest: "list_all keeps_params ms"
    by simp_all
  then have "req_params (fst (snd (m env ctx w))) = req_params (fst w)"
    unfolding keeps_params_def by blast
  with step Cons.prems(1) have absent: "req_params (fst w') = None"
    by simp
  have same: "when_params_absent m other env ctx w = (out, w')"
    using step Cons.prems(1) by (simp add: when_params_absent_def)
  show ?case
    using Cons.IH[OF absent rest] step same
    by (simp split: outcome.splits returned.splits)
qed

lemma fetch_when_params_absent:
  assumes "list_all keeps_params (middlewares this)"
  shows "fetch URL ext (this\<lparr>middlewares := map (\<lambda>m. when_params_absent m other) (middlewares this)\<rparr>)
            request env ctx u
       = fetch URL ext this request env ctx u"
proof -
  have "fetch_try URL ext (this\<lparr>middlewares := map (\<lambda>m. when_params_absent m other) (middlewares this)\<rparr>)
            request env ctx u
       = fetch_try URL ext this request env ctx u"
  proof (cases request)
    case None
    then show ?thesis by (simp add: fetch_try_def)
  next
    case (Some rq)
    show ?thesis
    proof (cases "RouterRequest URL (Some rq)")
      case (Inl f)
      with Some show ?thesis
        by (simp add: fetch_try_def split: option.splits)
    next
      case (Inr req)
      then have "req_params (fst (req, RouterResponse, u)) = None"
        by (simp add: RouterRequest_params_absent)
      from run_middlewares_when_params_absent[OF this assms, of other env ctx] Inr Some
      show ?thesis
        by (simp add: fetch_try_def split: option.splits prod.splits sum.splits)
    qed
  qed
  then show ?thesis
    by (simp add: fetch_def)
qed

text \<open>
  Claim C9, amended. A wrapper the constructor has built has no \<open>params\<close>: the field
  is undefined, not an empty map. The dispatcher assigns it only when a route has
  matched path and method, just before it calls that route's handler: the handler of
  the first such route is called on the world the middleware left, with \<open>params\<close>
  set to the parameters of the match. No middleware is ever called with \<open>params\<close> set
  (unless a middleware sets the field itself): replacing what each middleware would do
  in that case by anything else changes no dispatch.
\<close>

theorem params_set_after_match:
  "(\<forall>URL request req. RouterRequest URL request = Inr req \<longrightarrow> req_params req = None)
   \<and> (\<forall>other u. list_all keeps_params (middlewares this) \<longrightarrow>
         fetch URL ext
           (this\<lparr>middlewares := map (\<lambda>m. when_params_absent m other) (middlewares this)\<rparr>)
           request env ctx u
         = fetch URL ext this request env ctx u)
   \<and> (\<forall>rq s parsed req u w earlier rt later ps.
         request = Some rq \<and> raw_url rq = Some s \<and> URL (Some s) = Some parsed
         \<and> RouterRequest URL (Some rq) = Inr req
         \<and> run_middlewares (middlewares this) env ctx (req, RouterResponse, u) = (Inr None, w)
         \<and> routes this = earlier @ rt # later
         \<and> list_all (misses ext (pathname parsed) (raw_method rq)) earlier
         \<and> matchRoute ext (route_url rt) (pathname parsed) = Inr (Some ps)
         \<and> route_method rt = raw_method rq
         \<longrightarrow> req_params (fst (set_params ps w)) = Some ps
             \<and> fetch URL ext this request env ctx u =
                 (case route_callback rt env ctx (set_params ps w) of
                    (Returns v, w') \<Rightarrow> (Inr v, user_state w')
                  | (Throws err, w') \<Rightarrow>
                      (Inr (IsResponse (errorResponse (Finite 500) ''Internal Server Error''
                         (case err of
                            ThrownError m \<Rightarrow> Some m
                          | ThrownOther \<Rightarrow> None
                          | ThrownNullish \<Rightarrow> Some ''Failed to process request''))),
                       user_state w')))"
proof (intro conjI allI impI)
  fix URL' :: url_parser and request' req
  assume "RouterRequest URL' request' = Inr req"
  then show "req_params req = None" by (rule RouterRequest_params_absent)
next
  fix other :: "('a, 'b, 'c) callback" and u
  assume "list_all keeps_params (middlewares this)"
  then show "fetch URL ext
           (this\<lparr>middlewares := map (\<lambda>m. when_params_absent m other) (middlewares this)\<rparr>)
           request env ctx u
         = fetch URL ext this request env ctx u"
    by (rule fetch_when_params_absent)
next
  fix rq s parsed req u w earlier rt later ps
  assume h: "request = Some rq \<and> raw_url rq = Some s \<and> URL (Some s) = Some parsed
         \<and> RouterRequest URL (Some rq) = Inr req
         \<and> run_middlewares (middlewares this) env ctx (req, RouterResponse, u) = (Inr None, w)
         \<and> routes this = earlier @ rt # later
         \<and> list_all (misses ext (pathname parsed) (raw_method rq)) earlier
         \<and> matchRoute ext (route_url rt) (pathname parsed) = Inr (Some ps)
         \<and> route_method rt = raw_method rq"
  show "req_params (fst (set_params ps w)) = Some ps"
    by (cases w) (simp add: set_params_def)
  from h have "fetch URL ext this (Some rq) env ctx u =
                 (case route_callback rt env ctx (set_params ps w) of
                    (Returns v, w') \<Rightarrow> (Inr v, user_state w')
                  | (Throws err, w') \<Rightarrow>
                      (Inr (IsResponse (errorResponse (Finite 500) ''Internal Server Error''
                         (case err of
                            ThrownError m \<Rightarrow> Some m
                          | ThrownOther \<Rightarrow> None
                          | ThrownNullish \<Rightarrow> Some ''Failed to process request''))),
                       user_state w'))"
    using fetch_hit[of rq s URL parsed req this env ctx u w earlier rt later ext ps] by simp
  with h show "fetch URL ext this request env ctx u =
                 (case route_callback rt env ctx (set_params ps w) of
                    (Returns v, w') \<Rightarrow> (Inr v, user_state w')
                  | (Throws err, w') \<Rightarrow>
                      (Inr (IsResponse (errorResponse (Finite 500) ''Internal Server Error''
                         (case err of
                            ThrownError m \<Rightarrow> Some m
                          | ThrownOther \<Rightarrow> None
                          | ThrownNullish \<Rightarrow> Some ''Failed to process request''))),
                       user_state w'))"
    by simp
qed


text \<open>
  Claim C9 as it is worded fails: on the wrapper of \<open>GET /users/7\<close> the field
  \<open>params\<close> is undefined, not the empty map, and a middleware that reads
  \<open>req.params.id\<close> throws, which the dispatcher answers with the 500 response
  \<open>Middleware Error\<close>.
\<close>

theorem params_at_construction_counterexample:
  "RouterRequest sample_URL (Some (sample_request ''GET'' ''https://example.com/users/7''))
     = Inr \<lparr>req_ipAddress = None, req_method = ''GET'',
             req_url = \<lparr>pathname = ''/users/7'', searchParams = []\<rparr>,
             req_headers = HeadersAbsent,
             req_request = sample_request ''GET'' ''https://example.com/users/7'',
             req_query = Map.empty, req_params = None\<rparr>
   \<and> map_sum id req_params
        (RouterRequest sample_URL (Some (sample_request ''GET'' ''https://example.com/users/7'')))
       \<noteq> Inr (Some Map.empty)
   \<and> fetch sample_URL sample_engine
        \<lparr>routes = [], middlewares = [echo_param ''id'']\<rparr>
        (Some (sample_request ''GET'' ''https://example.com/users/7'')) () () ()
     = (Inr (IsResponse (errorResponse (Finite 500) ''Middleware Error''
               (Some ''Cannot read properties of undefined''))), ())"
  using sample_wrapper[of "''GET''" "''/users/7''"]
  by (simp add: fetch_def fetch_try_def sample_URL_def sample_request_def echo_param_def
        user_state_def)

lemma keeps_params_logs: "keeps_params (logs n out)"
  by (simp add: keeps_params_def logs_def split: prod.splits)

text \<open>
  \<open>GET /users/7\<close> on the route \<open>GET /users/:id\<close> whose handler answers with
  \<open>req.params.id\<close>: the answer is \<open>7\<close>, and it is the same when the middleware is
  replaced by one that would read \<open>req.params.id\<close> if \<open>params\<close> were set.
\<close>

theorem params_set_after_match_witness:
  "fetch sample_URL sample_engine
     \<lparr>routes = [\<lparr>route_url = ''/users/:id'', route_callback = echo_param ''id'',
                  route_method = ''GET''\<rparr>],
      middlewares = [logs 1 (Returns NotResponse)]\<rparr>
     (Some (sample_request ''GET'' ''https://example.com/users/7'')) () () []
   = (Inr (IsResponse
        \<lparr>resp_body = Text ''7'', resp_status = Finite 200, resp_statusText = ''OK'',
         resp_headers = (header RouterResponse)(''Content-Type'' \<mapsto> ''text/plain'')\<rparr>), [1])
   \<and> fetch sample_URL sample_engine
     \<lparr>routes = [\<lparr>route_url = ''/users/:id'', route_callback = echo_param ''id'',
                  route_method = ''GET''\<rparr>],
      middlewares = [when_params_absent (logs 1 (Returns NotResponse)) (echo_param ''id'')]\<rparr>
     (Some (sample_request ''GET'' ''https://example.com/users/7'')) () () []
   = (Inr (IsResponse
        \<lparr>resp_body = Text ''7'', resp_status = Finite 200, resp_statusText = ''OK'',
         resp_headers = (header RouterResponse)(''Content-Type'' \<mapsto> ''text/plain'')\<rparr>), [1])"
proof -
  let ?rq = "sample_request ''GET'' ''https://example.com/users/7''"
  let ?rt = "\<lparr>route_url = ''/users/:id'',
               route_callback = echo_param ''id'' :: (unit, unit, nat list) callback,
               route_method = ''GET''\<rparr>"
  let ?m1 = "logs 1 (Returns NotResponse) :: (unit, unit, nat list) callback"
  let ?app = "\<lparr>routes = [?rt], middlewares = [?m1]\<rparr>"
  let ?parsed = "\<lparr>pathname = ''/users/7'', searchParams = []\<rparr>"
  let ?req = "\<lparr>req_ipAddress = None, req_method = ''GET'', req_url = ?parsed,
        req_headers = HeadersAbsent, req_request = ?rq,
        req_query = Map.empty, req_params = None\<rparr>"
  let ?ps = "[''id'' \<mapsto> Some ''7''] :: params"
  note T = params_set_after_match[of ?app sample_URL sample_engine "Some ?rq" "()" "()"]
  have hit: "Some ?rq = Some ?rq \<and> raw_url ?rq = Some ''https://example.com/users/7''
         \<and> sample_URL (Some ''https://example.com/users/7'') = Some ?parsed
         \<and> RouterRequest sample_URL (Some ?rq) = Inr ?req
         \<and> run_middlewares (middlewares ?app) () () (?req, RouterResponse, [])
             = (Inr None, (?req, RouterResponse, [1]))
         \<and> routes ?app = [] @ ?rt # []
         \<and> list_all (misses sample_engine (pathname ?parsed) (raw_method ?rq)) []
         \<and> matchRoute sample_engine (route_url ?rt) (pathname ?parsed) = Inr (Some ?ps)
         \<and> route_method ?rt = raw_method ?rq"
    using sample_wrapper[of "''GET''" "''/users/7''"]
    by (simp add: sample_request_def sample_URL_def logs_def matcher_defs)
  have first: "fetch sample_URL sample_engine ?app (Some ?rq) () () []
     = (Inr (IsResponse
        \<lparr>resp_body = Text ''7'', resp_status = Finite 200, resp_statusText = ''OK'',
         resp_headers = (header RouterResponse)(''Content-Type'' \<mapsto> ''text/plain'')\<rparr>), [1])"
    using T[THEN conjunct2, THEN conjunct2, rule_format, OF hit]
    by (simp add: echo_param_def set_params_def user_state_def)
  have "list_all keeps_params (middlewares ?app)"
    by (simp add: keeps_params_logs)
  from T[THEN conjunct2, THEN conjunct1, rule_format, OF this, of "echo_param ''id''" "[]"] first
  show ?thesis
    by simp
qed

subsection \<open>The body accessors \<open>text()\<close> and \<open>json()\<close>\<close>

lemma trim_empty_iff: "trim s = [] \<longleftrightarrow> list_all white_space s"
proof
  assume "trim s = []"
  then have all: "\<forall>c\<in>set (dropWhile white_space s). white_space c"
    by (simp add: trim_def dropWhile_eq_Nil_conv)
  have "dropWhile white_space s = []"
  proof (rule ccontr)
    assume ne: "dropWhile white_space s \<noteq> []"
    then have "\<not> white_space (hd (dropWhile white_space s))"
      by (rule hd_dropWhile)
    moreover have "hd (dropWhile white_space s) \<in> set (dropWhile white_space s)"
      using ne by simp
    ultimately show False using all by blast
  qed
  then show "list_all white_space s"
    by (simp add: dropWhile_eq_Nil_conv list_all_iff)
next
  assume "list_all white_space s"
  then have e: "dropWhile white_space s = []"
    by (simp add: dropWhile_eq_Nil_conv list_all_iff)
  show "trim s = []"
    unfolding trim_def e by simp
qed

lemma no_JSON_in_size_failure:
  "\<not> includes_text ''Failed to parse request body as text: Request body too large (max 1MB)'' ''JSON''"
  by simp

lemma no_JSON_in_empty_failure: "\<not> includes_text ''Empty request body'' ''JSON''"
  by simp

lemma json_wraps_text_failure:
  assumes "RouterRequest_text req = Inl (Error m)"
  shows "RouterRequest_json JSON_parse req =
     Inl (Error ((if includes_text m ''JSON'' then ''Invalid JSON format: ''
                  else ''Failed to parse request body as JSON: '') @ m))"
  using assms by (simp add: RouterRequest_json_def RouterRequest_json_try_def message_of_failure_def)

text \<open>
  Claim C7, amended. \<open>text()\<close> rejects a body of more than \<open>1024 * 1024\<close> code units;
  the error it throws is the one its \<open>catch\<close> builds for every failure of the read,
  \<open>Failed to parse request body as text: \<close> followed by the message caught, here
  \<open>Request body too large (max 1MB)\<close>. A body within the limit is returned.
  \<open>json()\<close> gets the body from \<open>text()\<close>: a failure of \<open>text()\<close> with message \<open>m\<close>
  becomes the failure of \<open>json()\<close> with \<open>m\<close> after a prefix, so the size limit is
  inherited. A blank body is rejected with
  \<open>Failed to parse request body as JSON: Empty request body\<close>. Malformed JSON is
  rejected with the parser's message after the prefix \<open>Invalid JSON format: \<close> when the
  message contains \<open>JSON\<close> (the other prefix otherwise), which differs from the
  empty-body failure whenever the parser's message is not \<open>Empty request body\<close>. Any
  other body gives the parsed value.
\<close>

theorem body_accessor_failures:
  "(\<forall>t. raw_text (req_request req) = Inr t \<and> length t > 1024 * 1024 \<longrightarrow>
      RouterRequest_text req
        = Inl (Error ''Failed to parse request body as text: Request body too large (max 1MB)'')
      \<and> RouterRequest_json JSON_parse req
        = Inl (Error (''Failed to parse request body as JSON: '' @
                      ''Failed to parse request body as text: Request body too large (max 1MB)'')))
   \<and> (\<forall>msg. raw_text (req_request req) = Inl msg \<longrightarrow>
      RouterRequest_text req = Inl (Error (''Failed to parse request body as text: '' @ msg)))
   \<and> (\<forall>t. raw_text (req_request req) = Inr t \<and> length t \<le> 1024 * 1024 \<longrightarrow>
      RouterRequest_text req = Inr t)
   \<and> (\<forall>m. RouterRequest_text req = Inl (Error m) \<longrightarrow>
      RouterRequest_json JSON_parse req =
        Inl (Error ((if includes_text m ''JSON'' then ''Invalid JSON format: ''
                     else ''Failed to parse request body as JSON: '') @ m)))
   \<and> (\<forall>t. RouterRequest_text req = Inr t \<and> list_all white_space t \<longrightarrow>
      RouterRequest_json JSON_parse req
        = Inl (Error ''Failed to parse request body as JSON: Empty request body''))
   \<and> (\<forall>t msg. RouterRequest_text req = Inr t \<and> \<not> list_all white_space t
        \<and> JSON_parse t = Inl msg \<longrightarrow>
      RouterRequest_json JSON_parse req =
        Inl (Error ((if includes_text msg ''JSON'' then ''Invalid JSON format: ''
                     else ''Failed to parse request body as JSON: '') @ msg))
      \<and> (msg \<noteq> ''Empty request body'' \<longrightarrow>
           RouterRequest_json JSON_parse req
             \<noteq> Inl (Error ''Failed to parse request body as JSON: Empty request body'')))
   \<and> (\<forall>t v. RouterRequest_text req = Inr t \<and> \<not> list_all white_space t
        \<and> JSON_parse t = Inr v \<longrightarrow>
      RouterRequest_json JSON_parse req = Inr v)"
proof (intro conjI allI impI)
  fix t assume h: "raw_text (req_request req) = Inr t \<and> length t > 1024 * 1024"
  then show big: "RouterRequest_text req
        = Inl (Error ''Failed to parse request body as text: Request body too large (max 1MB)'')"
    by (simp add: RouterRequest_text_def RouterRequest_text_try_def)
  show "RouterRequest_json JSON_parse req
        = Inl (Error (''Failed to parse request body as JSON: '' @
                      ''Failed to parse request body as text: Request body too large (max 1MB)''))"
    using json_wraps_text_failure[OF big, of JSON_parse] no_JSON_in_size_failure
    by (simp del: includes_text.simps)
next
  fix msg assume "raw_text (req_request req) = Inl msg"
  then show "RouterRequest_text req = Inl (Error (''Failed to parse request body as text: '' @ msg))"
    by (simp add: RouterRequest_text_def RouterRequest_text_try_def)
next
  fix t assume "raw_text (req_request req) = Inr t \<and> length t \<le> 1024 * 1024"
  then show "RouterRequest_text req = Inr t"
    by (simp add: RouterRequest_text_def RouterRequest_text_try_def)
next
  fix m assume "RouterRequest_text req = Inl (Error m)"
  then show "RouterRequest_json JSON_parse req =
        Inl (Error ((if includes_text m ''JSON'' then ''Invalid JSON format: ''
                     else ''Failed to parse request body as JSON: '') @ m))"
    by (rule json_wraps_text_failure)
next
  fix t assume "RouterRequest_text req = Inr t \<and> list_all white_space t"
  then show "RouterRequest_json JSON_parse req
        = Inl (Error ''Failed to parse request body as JSON: Empty request body'')"
    using no_JSON_in_empty_failure
    by (simp add: RouterRequest_json_def RouterRequest_json_try_def trim_empty_iff
          del: includes_text.simps)
next
  fix t msg
  assume h: "RouterRequest_text req = Inr t \<and> \<not> list_all white_space t \<and> JSON_parse t = Inl msg"
  then show eq: "RouterRequest_json JSON_parse req =
        Inl (Error ((if includes_text msg ''JSON'' then ''Invalid JSON format: ''
                     else ''Failed to parse request body as JSON: '') @ msg))"
    by (simp add: RouterRequest_json_def RouterRequest_json_try_def trim_empty_iff)
  assume "msg \<noteq> ''Empty request body''"
  then show "RouterRequest_json JSON_parse req
             \<noteq> Inl (Error ''Failed to parse request body as JSON: Empty request body'')"
    unfolding eq by (cases "includes_text msg ''JSON''") simp_all
next
  fix t v
  assume "RouterRequest_text req = Inr t \<and> \<not> list_all white_space t \<and> JSON_parse t = Inr v"
  then show "RouterRequest_json JSON_parse req = Inr v"
    by (simp add: RouterRequest_json_def RouterRequest_json_try_def trim_empty_iff)
qed


lemma text_of_sample [simp]: "raw_text (req_request (request_with_body b)) = b"
  by (simp add: request_with_body_def)

lemma length_oversized_body: "length oversized_body = 1048577"
  by (simp add: oversized_body_def)

text \<open>
  Claim C7 as it is worded fails: for a body of \<open>1024 * 1024 + 1\<close> code units the error
  of \<open>text()\<close> is not the size-limit error but the generic
  \<open>Failed to parse request body as text: ...\<close> error that wraps it, the same error a
  failed read with that message gives.
\<close>

theorem text_size_failure_counterexample:
  "RouterRequest_text (request_with_body (Inr oversized_body))
     = Inl (Error ''Failed to parse request body as text: Request body too large (max 1MB)'')
   \<and> RouterRequest_text (request_with_body (Inr oversized_body))
     \<noteq> Inl (Error ''Request body too large (max 1MB)'')
   \<and> RouterRequest_text (request_with_body (Inl ''Request body too large (max 1MB)''))
     = RouterRequest_text (request_with_body (Inr oversized_body))"
  by (simp add: RouterRequest_text_def RouterRequest_text_try_def length_oversized_body)

text \<open>
  The oversized body, a read that fails, a blank body, the malformed text \<open>{\<close> and
  the text \<open>{}\<close>.
\<close>

theorem body_accessor_failures_witness:
  "RouterRequest_text (request_with_body (Inr oversized_body))
     = Inl (Error ''Failed to parse request body as text: Request body too large (max 1MB)'')
   \<and> RouterRequest_json sample_JSON_parse (request_with_body (Inr oversized_body))
     = Inl (Error ''Failed to parse request body as JSON: Failed to parse request body as text: Request body too large (max 1MB)'')
   \<and> RouterRequest_text (request_with_body (Inl ''stream is locked''))
     = Inl (Error ''Failed to parse request body as text: stream is locked'')
   \<and> RouterRequest_json sample_JSON_parse (request_with_body (Inr '' ''))
     = Inl (Error ''Failed to parse request body as JSON: Empty request body'')
   \<and> RouterRequest_json sample_JSON_parse (request_with_body (Inr ''{''))
     = Inl (Error ''Invalid JSON format: Unexpected end of JSON input'')
   \<and> RouterRequest_json sample_JSON_parse (request_with_body (Inr ''{}'')) = Inr (JObject [])"
proof -
  have t: "RouterRequest_text (request_with_body (Inr s)) = Inr s" if "length s \<le> 1024 * 1024" for s
    using that by (simp add: RouterRequest_text_def RouterRequest_text_try_def)
  have big: "raw_text (req_request (request_with_body (Inr oversized_body))) = Inr oversized_body
      \<and> length oversized_body > 1024 * 1024"
    by (simp add: length_oversized_body)
  have blank: "RouterRequest_text (request_with_body (Inr '' '')) = Inr '' '' \<and> list_all white_space '' ''"
    by (simp add: t white_space_def)
  have broken: "RouterRequest_text (request_with_body (Inr ''{'')) = Inr ''{''
      \<and> \<not> list_all white_space ''{'' \<and> sample_JSON_parse ''{'' = Inl ''Unexpected end of JSON input''"
    by (simp add: t white_space_def sample_JSON_parse_def)
  have good: "RouterRequest_text (request_with_body (Inr ''{}'')) = Inr ''{}''
      \<and> \<not> list_all white_space ''{}'' \<and> sample_JSON_parse ''{}'' = Inr (JObject [])"
    by (simp add: t white_space_def sample_JSON_parse_def)
  note B = body_accessor_failures[of "request_with_body (Inr oversized_body)" sample_JSON_parse]
  note L = body_accessor_failures[of "request_with_body (Inl ''stream is locked'')" sample_JSON_parse]
  note E = body_accessor_failures[of "request_with_body (Inr '' '')" sample_JSON_parse]
  note M = body_accessor_failures[of "request_with_body (Inr ''{'')" sample_JSON_parse]
  note G = body_accessor_failures[of "request_with_body (Inr ''{}'')" sample_JSON_parse]
  have 1: "RouterRequest_text (request_with_body (Inr oversized_body))
     = Inl (Error ''Failed to parse request body as text: Request body too large (max 1MB)'')
   \<and> RouterRequest_json sample_JSON_parse (request_with_body (Inr oversized_body))
     = Inl (Error (''Failed to parse request body as JSON: '' @
           ''Failed to parse request body as text: Request body too large (max 1MB)''))"
    using B[THEN conjunct1, rule_format, OF big] .
  have 2: "RouterRequest_text (request_with_body (Inl ''stream is locked''))
     = Inl (Error (''Failed to parse request body as text: '' @ ''stream is locked''))"
    by (rule L[THEN conjunct2, THEN conjunct1, rule_format]) simp
  have 3: "RouterRequest_json sample_JSON_parse (request_with_body (Inr '' ''))
     = Inl (Error ''Failed to parse request body as JSON: Empty request body'')"
    using E[THEN conjunct2, THEN conjunct2, THEN conjunct2, THEN conjunct2, THEN conjunct1,
            rule_format, OF blank] .
  have 4: "RouterRequest_json sample_JSON_parse (request_with_body (Inr ''{''))
     = Inl (Error ((if includes_text ''Unexpected end of JSON input'' ''JSON''
                    then ''Invalid JSON format: ''
                    else ''Failed to parse request body as JSON: '') @ ''Unexpected end of JSON input''))"
    using M[THEN conjunct2, THEN conjunct2, THEN conjunct2, THEN conjunct2, THEN conjunct2,
            THEN conjunct1, rule_format, OF broken, THEN conjunct1] .
  have 5: "RouterRequest_json sample_JSON_parse (request_with_body (Inr ''{}'')) = Inr (JObject [])"
    using G[THEN conjunct2, THEN conjunct2, THEN conjunct2, THEN conjunct2, THEN conjunct2,
            THEN conjunct2, rule_format, OF good] .
  from 1 2 3 4 5 show ?thesis
    by simp
qed

subsection \<open>A parameter name that occurs more than once\<close>

lemma assign_loop_Suc:
  "fold (\<lambda>i ps. set_prop ps (names ! i) (capture_at caps i)) [0..<Suc k] m
   = set_prop (fold (\<lambda>i ps. set_prop ps (names ! i) (capture_at caps i)) [0..<k] m)
       (names ! k) (capture_at caps k)"
  by simp

lemma assign_loop_last:
  assumes "i < k" and "names ! i = n" and "n \<noteq> ''__proto__''"
    and "\<forall>j. i < j \<and> j < k \<longrightarrow> names ! j \<noteq> n"
  shows "fold (\<lambda>i ps. set_prop ps (names ! i) (capture_at caps i)) [0..<k] m n
         = Some (capture_at caps i)"
  using assms
proof (induction k)
  case 0
  then show ?case by simp
next
  case (Suc k)
  show ?case
  proof (cases "i = k")
    case True
    with Suc.prems show ?thesis
      by (simp add: set_prop_def)
  next
    case False
    with Suc.prems have "i < k" and later: "\<forall>j. i < j \<and> j < k \<longrightarrow> names ! j \<noteq> n"
      and "names ! k \<noteq> n"
      by auto
    with Suc.IH[OF \<open>i < k\<close> Suc.prems(2,3) later] show ?thesis
      by (simp add: set_prop_def)
  qed
qed

text \<open>
  For every name but \<open>__proto__\<close> the last assignment wins: when the pattern matches,
  the returned map binds the name to \<open>match[i + 1]\<close>, where \<open>i\<close> is the last index at
  which the name stands in the list of recorded names. The loop pairs the \<open>i\<close>-th name
  with the \<open>i\<close>-th group of the whole expression, so this is the capture of the
  name's rightmost \<open>:\<close> segment only when the pattern has no group of its own before
  that segment.
\<close>

lemma last_occurrence_wins:
  assumes "matchRoute ext pattern path = Inr (Some ps)"
    and "i < length (paramNames pattern)" and "paramNames pattern ! i = n"
    and "\<forall>j. i < j \<and> j < length (paramNames pattern) \<longrightarrow> paramNames pattern ! j \<noteq> n"
    and "n \<noteq> ''__proto__''"
  shows "\<exists>caps. RegExp_match ext (''^'' @ regexPattern pattern @ ''$'') path = RxMatch caps
            \<and> ps n = Some (capture_at caps i)"
proof -
  from assms(1) obtain caps where
    m: "RegExp_match ext (''^'' @ regexPattern pattern @ ''$'') path = RxMatch caps"
    and ps: "ps = assign_params (paramNames pattern) caps"
    by (auto simp: matchRoute_def split: rx_result.splits)
  have "ps n = Some (capture_at caps i)"
    unfolding ps assign_params_def
    using assms(2-5) by (intro assign_loop_last) auto
  with m show ?thesis by blast
qed

text \<open>
  A group written in the pattern shifts the pairing: for \<open>/([^/]+)/:id/:id\<close> on
  \<open>/x/a/b\<close> the groups capture \<open>x\<close>, \<open>a\<close>, \<open>b\<close>, the names are \<open>id\<close>, \<open>id\<close>, and the
  map is \<open>{id: "a"}\<close>.
\<close>

lemma group_shifts_captures:
  "matchRoute ext ''/([^/]+)/:id/:id'' ''/x/a/b'' = Inr (Some [''id'' \<mapsto> Some ''a''])"
  by (simp add: matcher_defs)

text \<open>
  Claim C10. A name that occurs in more than one \<open>:\<close> segment is bound to the value
  captured by its last occurrence: \<open>/:id/:id\<close> on \<open>/a/b\<close> gives \<open>{id: "b"}\<close>. The
  code misses one name: for \<open>/:__proto__/:__proto__\<close> on \<open>/a/b\<close> the returned map has
  no binding at all, since both assignments \<open>params['__proto__'] = ...\<close> go to the
  inherited accessor and are dropped.
\<close>

theorem repeated_proto_name_unbound:
  "matchRoute ext ''/:__proto__/:__proto__'' ''/a/b'' = Inr (Some Map.empty)
   \<and> matchRoute ext ''/:id/:id'' ''/a/b'' = Inr (Some [''id'' \<mapsto> Some ''b''])"
  by (simp add: matcher_defs)

subsection \<open>The matcher against the reference matcher: splitting at the slashes\<close>

lemma split_slash_not_Nil [simp]: "split_slash s \<noteq> []"
  by (induction s) (auto split: list.splits)

lemma split_slash_unfold:
  "split_slash s = takeWhile non_slash s #
     (case dropWhile non_slash s of [] \<Rightarrow> [] | c # rest \<Rightarrow> split_slash rest)"
proof (induction s)
  case Nil
  then show ?case by simp
next
  case (Cons c s)
  then show ?case
    by (cases "split_slash s") (auto simp: non_slash_def)
qed

lemma split_slash_segments: "seg \<in> set (split_slash s) \<Longrightarrow> list_all non_slash seg"
proof (induction s arbitrary: seg)
  case Nil
  then show ?case by simp
next
  case (Cons c s)
  then show ?case
    by (cases "split_slash s") (auto simp: non_slash_def split: if_splits)
qed

lemma split_slash_single: "list_all non_slash w \<Longrightarrow> split_slash w = [w]"
  by (induction w) (auto simp: non_slash_def)

lemma split_slash_more:
  "list_all non_slash w \<Longrightarrow> split_slash (w @ slash # rest) = w # split_slash rest"
  by (induction w) (auto simp: non_slash_def)

lemma split_cases:
  obtains (single) "list_all non_slash s" "split_slash s = [s]"
  | (more) w rest where "list_all non_slash w" "s = w @ slash # rest"
      "split_slash s = w # split_slash rest"
proof (cases "dropWhile non_slash s")
  case Nil
  then have a: "list_all non_slash s"
    by (simp add: dropWhile_eq_Nil_conv list_all_iff)
  show ?thesis
    by (rule single[OF a split_slash_single[OF a]])
next
  case (Cons c rest)
  from Cons have "dropWhile non_slash s \<noteq> []" by simp
  then have "\<not> non_slash (hd (dropWhile non_slash s))"
    by (rule hd_dropWhile)
  then have c: "c = slash" unfolding Cons by (simp add: non_slash_def)
  define w where "w = takeWhile non_slash s"
  have s: "s = w @ slash # rest"
    by (metis takeWhile_dropWhile_id Cons c w_def)
  have w: "list_all non_slash w"
    unfolding w_def list_all_iff by (blast dest: set_takeWhileD)
  have "split_slash s = w # split_slash rest"
    by (subst s) (rule split_slash_more[OF w])
  with w s show ?thesis by (rule more)
qed


subsection \<open>Rewriting a segment\<close>

lemma run_before_slash:
  assumes "list_all non_slash name" and "t = [] \<or> hd t = slash"
  shows "takeWhile non_slash (name @ t) = name" and "dropWhile non_slash (name @ t) = t"
  using assms by (induction name) (auto simp: non_slash_def takeWhile_eq_Nil_iff
      dropWhile_eq_self_iff)

lemma replace_params_slash:
  "replace_params (slash # rest) = (slash # fst (replace_params rest), snd (replace_params rest))"
  by (simp add: slash_def colon_def split: prod.splits)

lemma replace_params_literal:
  assumes "list_all non_slash w" and "colon \<notin> set (butlast w)" and "t = [] \<or> hd t = slash"
  shows "replace_params (w @ t) = (w @ fst (replace_params t), snd (replace_params t))"
  using assms
proof (induction w)
  case Nil
  then show ?case by simp
next
  case (Cons c w)
  show ?case
  proof (cases "c = colon")
    case True
    with Cons.prems(2) have "w = []" by (auto split: if_splits)
    moreover have "takeWhile non_slash t = []"
      using Cons.prems(3) by (cases t) (auto simp: non_slash_def)
    ultimately show ?thesis
      by (simp split: prod.splits)
  next
    case False
    from Cons.prems have "list_all non_slash w" and "colon \<notin> set (butlast w)"
      by (auto split: if_splits)
    from Cons.IH[OF this Cons.prems(3)] False show ?thesis
      by (simp split: prod.splits)
  qed
qed

lemma replace_params_named:
  assumes "name \<noteq> []" and "list_all non_slash name" and "t = [] \<or> hd t = slash"
  shows "replace_params (colon # name @ t)
       = (group_text @ fst (replace_params t), name # snd (replace_params t))"
  using assms(1) run_before_slash[OF assms(2,3)]
  by (simp split: prod.splits)

subsection \<open>Parsing the rewritten text\<close>

lemma rx_items_plain:
  assumes "list_all (\<lambda>c. \<not> syntax_char c) w"
  shows "rx_items (w @ r) = map_option ((@) (map Lit w)) (rx_items r)"
  using assms
proof (induction w)
  case Nil
  then show ?case by (simp add: option.map_ident)
next
  case (Cons c w)
  then have "c \<noteq> CHR ''(''" and "c \<noteq> CHR ''.''" and "\<not> syntax_char c"
    by (auto simp: syntax_char_def)
  with Cons show ?case
    by (cases "rx_items r") simp_all
qed

lemma rx_items_slash: "rx_items (slash # r) = map_option (Cons (Lit slash)) (rx_items r)"
  by (simp add: slash_def syntax_char_def)

lemma rx_items_group: "rx_items (group_text @ r) = map_option (Cons Group) (rx_items r)"
  by (simp add: group_text_def)

lemma segs_items_Cons:
  "segs \<noteq> [] \<Longrightarrow> segs_items (seg # segs) = seg_items seg @ Lit slash # segs_items segs"
  by (cases segs) simp_all


subsection \<open>The expression of a well-formed pattern\<close>

lemma named_segmentD:
  "named_segment seg \<Longrightarrow> \<exists>name. seg = colon # name \<and> name \<noteq> []"
  by (cases seg) (auto simp: named_segment_def)

lemma compile_segment:
  assumes w: "list_all non_slash w"
    and ok: "if named_segment w then tl w \<noteq> ''__proto__'' else literal_segment w"
    and t: "t = [] \<or> hd t = slash"
  shows "rx_items (fst (replace_params (w @ t)))
           = map_option ((@) (seg_items w)) (rx_items (fst (replace_params t)))"
    and "snd (replace_params (w @ t))
           = (if named_segment w then [tl w] else []) @ snd (replace_params t)"
proof -
  show "rx_items (fst (replace_params (w @ t)))
           = map_option ((@) (seg_items w)) (rx_items (fst (replace_params t)))"
  proof (cases "named_segment w")
    case True
    then obtain name where n: "w = colon # name" "name \<noteq> []"
      using named_segmentD by blast
    with w have "list_all non_slash name" by simp
    from replace_params_named[OF n(2) this t] n True show ?thesis
      by (cases "rx_items (fst (replace_params t))") (simp_all add: rx_items_group seg_items_def)
  next
    case False
    with ok have lit: "list_all (\<lambda>c. \<not> syntax_char c) w" "colon \<notin> set (butlast w)"
      by (simp_all add: literal_segment_def)
    from replace_params_literal[OF w lit(2) t] False show ?thesis
      by (simp add: rx_items_plain[OF lit(1)] seg_items_def)
  qed
  show "snd (replace_params (w @ t))
           = (if named_segment w then [tl w] else []) @ snd (replace_params t)"
  proof (cases "named_segment w")
    case True
    then obtain name where n: "w = colon # name" "name \<noteq> []"
      using named_segmentD by blast
    with w have "list_all non_slash name" by simp
    from replace_params_named[OF n(2) this t] n True show ?thesis
      by simp
  next
    case False
    with ok have lit: "colon \<notin> set (butlast w)"
      by (simp add: literal_segment_def)
    from replace_params_literal[OF w lit t] False show ?thesis
      by simp
  qed
qed

lemma compile_pattern:
  assumes "segment_pattern p"
  shows "rx_items (regexPattern p) = Some (segs_items (split_slash p))
       \<and> paramNames p = map tl (filter named_segment (split_slash p))"
  using assms
proof (induction p rule: measure_induct_rule[of length])
  case (less p)
  show ?case
  proof (cases p rule: split_cases)
    case single
    with less.prems have ok: "if named_segment p then tl p \<noteq> ''__proto__'' else literal_segment p"
      by (simp add: segment_pattern_def)
    from compile_segment[OF single(1) ok, of "[]"] single(2) show ?thesis
      by (simp add: regexPattern_def paramNames_def)
  next
    case (more w rest)
    with less.prems have ok: "if named_segment w then tl w \<noteq> ''__proto__'' else literal_segment w"
      and rest: "segment_pattern rest"
      by (simp_all add: segment_pattern_def)
    have "length rest < length p" using more(2) by simp
    from less.IH[OF this rest]
    have ih: "rx_items (fst (replace_params rest)) = Some (segs_items (split_slash rest))"
      "snd (replace_params rest) = map tl (filter named_segment (split_slash rest))"
      by (simp_all add: regexPattern_def paramNames_def)
    have t: "slash # rest = [] \<or> hd (slash # rest) = slash" by simp
    have a: "fst (replace_params (slash # rest)) = slash # fst (replace_params rest)"
      "snd (replace_params (slash # rest)) = map tl (filter named_segment (split_slash rest))"
      by (simp_all only: replace_params_slash fst_conv snd_conv ih(2))
    have b: "rx_items (slash # fst (replace_params rest))
        = Some (Lit slash # segs_items (split_slash rest))"
      by (simp only: rx_items_slash ih(1) option.map)
    note cs = compile_segment[OF more(1) ok t, unfolded a b, folded more(2)]
    show ?thesis
      unfolding regexPattern_def paramNames_def more(3)
      by (simp add: cs segs_items_Cons del: replace_params.simps rx_items.simps)
  qed
qed


subsection \<open>The group gives nothing back before a slash or the end\<close>

lemma try_group_all_fail:
  "(\<forall>j. 0 < j \<and> j \<le> k \<longrightarrow> cont (drop j s) = None) \<Longrightarrow> try_group cont s k = None"
  by (induction k) auto

lemma try_group_longest:
  assumes "\<forall>j. 0 < j \<and> j < k \<longrightarrow> cont (drop j s) = None" and "0 < k"
  shows "try_group cont s k = map_option (Cons (take k s)) (cont (drop k s))"
proof -
  from assms(2) obtain k' where k: "k = Suc k'" by (cases k) auto
  have "try_group cont s k' = None"
    using assms(1) k by (intro try_group_all_fail) auto
  then show ?thesis
    unfolding k by (cases "cont (drop (Suc k') s)") simp_all
qed

lemma inside_run:
  assumes "j < length (takeWhile non_slash s)"
  shows "\<exists>c rest. drop j s = c # rest \<and> non_slash c"
proof -
  have js: "j < length s"
    using assms length_takeWhile_le[of non_slash s] by simp
  have "non_slash (s ! j)"
    using assms nth_mem[OF assms] takeWhile_nth[OF assms] set_takeWhileD by metis
  moreover have "drop j s = s ! j # drop (Suc j) s"
    using js by (simp add: Cons_nth_drop_Suc)
  ultimately show ?thesis by blast
qed

lemma group_then:
  assumes fails: "\<And>c rest. non_slash c \<Longrightarrow> cont (c # rest) = None"
  shows "try_group cont s (length (takeWhile non_slash s)) =
     (if takeWhile non_slash s = [] then None
      else map_option (Cons (takeWhile non_slash s)) (cont (dropWhile non_slash s)))"
proof (cases "takeWhile non_slash s = []")
  case True
  then show ?thesis by simp
next
  case False
  have "\<forall>j. 0 < j \<and> j < length (takeWhile non_slash s) \<longrightarrow> cont (drop j s) = None"
    using inside_run fails by metis
  from try_group_longest[OF this] False show ?thesis
    by (simp add: takeWhile_eq_take[symmetric] dropWhile_eq_drop[symmetric])
qed

lemma non_slash_slash [simp]: "\<not> non_slash slash"
  by (simp add: non_slash_def)

lemma non_slashI: "c \<noteq> slash \<Longrightarrow> non_slash c"
  by (simp add: non_slash_def)

lemma match_group_end:
  "rx_match [Group] s = (if s \<noteq> [] \<and> list_all non_slash s then Some [s] else None)"
proof -
  have g: "try_group (rx_match []) s (length (takeWhile non_slash s)) =
     (if takeWhile non_slash s = [] then None
      else map_option (Cons (takeWhile non_slash s)) (rx_match [] (dropWhile non_slash s)))"
    by (rule group_then) simp
  show ?thesis
  proof (cases "list_all non_slash s")
    case True
    then have tw: "takeWhile non_slash s = s" and dw: "dropWhile non_slash s = []"
      by (simp_all add: list_all_iff)
    have "rx_match [Group] s = try_group (rx_match []) s (length (takeWhile non_slash s))"
      by simp
    also have "\<dots> = (if s = [] then None else Some [s])"
      unfolding g unfolding tw dw by simp
    finally show ?thesis using True by simp
  next
    case False
    then have dw: "rx_match [] (dropWhile non_slash s) = None"
      by (simp add: list_all_iff)
    have "rx_match [Group] s = try_group (rx_match []) s (length (takeWhile non_slash s))"
      by simp
    also have "\<dots> = None"
      unfolding g unfolding dw by simp
    finally show ?thesis using False by simp
  qed
qed

lemma match_group_slash:
  "rx_match (Group # Lit slash # r) s =
     (if takeWhile non_slash s \<noteq> [] \<and> dropWhile non_slash s \<noteq> []
      then map_option (Cons (takeWhile non_slash s)) (rx_match r (tl (dropWhile non_slash s)))
      else None)"
proof -
  have g: "try_group (rx_match (Lit slash # r)) s (length (takeWhile non_slash s)) =
     (if takeWhile non_slash s = [] then None
      else map_option (Cons (takeWhile non_slash s))
             (rx_match (Lit slash # r) (dropWhile non_slash s)))"
    by (rule group_then) auto
  have d: "rx_match (Lit slash # r) (dropWhile non_slash s) =
     (if dropWhile non_slash s = [] then None else rx_match r (tl (dropWhile non_slash s)))"
  proof (cases "dropWhile non_slash s")
    case Nil
    show ?thesis unfolding Nil by simp
  next
    case (Cons c rest)
    then have "dropWhile non_slash s \<noteq> []" by simp
    then have "\<not> non_slash (hd (dropWhile non_slash s))" by (rule hd_dropWhile)
    then have "c = slash" unfolding Cons using non_slashI by fastforce
    then show ?thesis unfolding Cons by simp
  qed
  have "rx_match (Group # Lit slash # r) s
      = try_group (rx_match (Lit slash # r)) s (length (takeWhile non_slash s))"
    by simp
  also have "\<dots> = (if takeWhile non_slash s = [] then None
      else map_option (Cons (takeWhile non_slash s))
        (if dropWhile non_slash s = [] then None else rx_match r (tl (dropWhile non_slash s))))"
    unfolding g unfolding d by (rule refl)
  finally show ?thesis
    by (simp del: rx_match.simps)
qed

lemma match_literal_end:
  "list_all non_slash w \<Longrightarrow> rx_match (map Lit w) s = (if s = w then Some [] else None)"
  by (induction w arbitrary: s) (auto split: list.splits)

lemma match_literal_slash:
  "list_all non_slash w \<Longrightarrow>
   rx_match (map Lit w @ Lit slash # r) s =
     (if takeWhile non_slash s = w \<and> dropWhile non_slash s \<noteq> []
      then rx_match r (tl (dropWhile non_slash s)) else None)"
proof (induction w arbitrary: s)
  case Nil
  show ?case
  proof (cases s)
    case Nil
    then show ?thesis by simp
  next
    case (Cons x xs)
    then show ?thesis
      by (cases "x = slash") (simp_all add: non_slashI)
  qed
next
  case (Cons c w)
  then have c: "non_slash c" and w: "list_all non_slash w" by simp_all
  show ?case
  proof (cases s)
    case Nil
    then show ?thesis by simp
  next
    case (Cons x xs)
    show ?thesis
    proof (cases "x = c")
      case True
      with Cons c Cons.IH[OF w, of xs] show ?thesis by auto
    next
      case False
      with Cons show ?thesis by (cases "non_slash x") simp_all
    qed
  qed
qed

subsection \<open>The expression of a pattern matches segment by segment\<close>

lemma match_segments_Nil_split [simp]: "match_segments [] (split_slash s) = None"
  by (cases "split_slash s") simp_all

lemma split_at_run:
  "dropWhile non_slash s = [] \<Longrightarrow> split_slash s = [s]"
  "dropWhile non_slash s = c # rest \<Longrightarrow> split_slash s = takeWhile non_slash s # split_slash rest"
proof -
  assume "dropWhile non_slash s = []"
  then have "list_all non_slash s"
    by (simp add: list_all_iff)
  then show "split_slash s = [s]" by (rule split_slash_single)
next
  assume d: "dropWhile non_slash s = c # rest"
  show "split_slash s = takeWhile non_slash s # split_slash rest"
    by (subst split_slash_unfold) (simp only: d list.case)
qed

lemma match_one_segment:
  assumes "list_all non_slash seg"
  shows "rx_match (seg_items seg) s = map_option (map snd) (match_segments [seg] (split_slash s))"
proof (cases "dropWhile non_slash s")
  case Nil
  then have all: "list_all non_slash s"
    by (simp add: list_all_iff)
  show ?thesis
    unfolding split_at_run(1)[OF Nil]
    using all assms
    by (auto simp: seg_items_def match_group_end match_literal_end simp del: rx_match.simps)
next
  case (Cons c rest)
  then have "dropWhile non_slash s \<noteq> []" by simp
  then have not_all: "\<not> list_all non_slash s"
    by (simp add: list_all_iff)
  with assms have "s \<noteq> seg" by blast
  with not_all show ?thesis
    unfolding split_at_run(2)[OF Cons]
    by (auto simp: seg_items_def match_group_end match_literal_end[OF assms]
          simp del: rx_match.simps)
qed

lemma match_first_segment:
  assumes seg: "list_all non_slash seg"
    and ih: "\<And>t. rx_match items t = map_option (map snd) (match_segments (seg2 # segs) (split_slash t))"
  shows "rx_match (seg_items seg @ Lit slash # items) s
       = map_option (map snd) (match_segments (seg # seg2 # segs) (split_slash s))"
proof (cases "dropWhile non_slash s")
  case Nil
  have d: "dropWhile non_slash s = []" by (rule Nil)
  show ?thesis
    unfolding split_at_run(1)[OF Nil]
    by (simp add: seg_items_def match_group_slash match_literal_slash[OF seg] d
          del: rx_match.simps)
next
  case (Cons c rest)
  have tl: "tl (dropWhile non_slash s) = rest" and ne: "dropWhile non_slash s \<noteq> []"
    unfolding Cons by simp_all
  have named: "rx_match (Group # Lit slash # items) s =
      (if takeWhile non_slash s \<noteq> [] then
         map_option (Cons (takeWhile non_slash s)) (rx_match items rest) else None)"
    unfolding match_group_slash tl using ne by (simp del: rx_match.simps)
  have literal: "rx_match (map Lit seg @ Lit slash # items) s =
      (if takeWhile non_slash s = seg then rx_match items rest else None)"
    unfolding match_literal_slash[OF seg] tl using ne by (simp del: rx_match.simps)
  show ?thesis
    unfolding split_at_run(2)[OF Cons]
  proof (cases "named_segment seg")
    case True
    then show "rx_match (seg_items seg @ Lit slash # items) s =
      map_option (map snd)
        (match_segments (seg # seg2 # segs) (takeWhile non_slash s # split_slash rest))"
      using named ih[of rest]
      by (cases "match_segments (seg2 # segs) (split_slash rest)")
         (simp_all add: seg_items_def del: rx_match.simps)
  next
    case False
    then show "rx_match (seg_items seg @ Lit slash # items) s =
      map_option (map snd)
        (match_segments (seg # seg2 # segs) (takeWhile non_slash s # split_slash rest))"
      using literal ih[of rest]
      by (auto simp: seg_items_def simp del: rx_match.simps)
  qed
qed

lemma match_by_segments:
  assumes "list_all (list_all non_slash) ps" and "ps \<noteq> []"
  shows "rx_match (segs_items ps) s = map_option (map snd) (match_segments ps (split_slash s))"
  using assms
proof (induction ps arbitrary: s rule: segs_items.induct)
  case 1
  then show ?case by simp
next
  case (2 seg)
  then show ?case
    by (simp add: match_one_segment del: match_segments.simps)
next
  case (3 seg v va)
  have "rx_match (seg_items seg @ Lit slash # segs_items (v # va)) s
       = map_option (map snd) (match_segments (seg # v # va) (split_slash s))"
  proof (rule match_first_segment)
    show "list_all non_slash seg" using "3.prems" by simp
    show "rx_match (segs_items (v # va)) t
        = map_option (map snd) (match_segments (v # va) (split_slash t))" for t
      using "3.prems" by (intro "3.IH") simp_all
  qed
  then show ?case by (simp del: rx_match.simps match_segments.simps)
qed

subsection \<open>The parameters of a match\<close>

lemma match_segments_names:
  "match_segments ps ss = Some bs \<Longrightarrow> map fst bs = map tl (filter named_segment ps)"
  by (induction ps ss arbitrary: bs rule: match_segments.induct) (auto split: if_splits)

lemma bind_all_snoc: "bind_all (bs @ [(n, v)]) = (bind_all bs)(n \<mapsto> Some v)"
  by (simp add: bind_all_def)

lemma assign_params_bind:
  assumes "''__proto__'' \<notin> set (map fst bs)"
  shows "assign_params (map fst bs) (map Some (map snd bs)) = bind_all bs"
  using assms
proof (induction bs rule: rev_induct)
  case Nil
  then show ?case by (simp add: assign_params_def bind_all_def)
next
  case (snoc b bs)
  obtain n v where b: "b = (n, v)" by (cases b)
  let ?k = "length bs"
  let ?f = "\<lambda>names caps i ps. set_prop ps (names ! i) (capture_at caps i)"
  have same: "fold (?f (map fst (bs @ [b])) (map Some (map snd (bs @ [b])))) [0..<?k] Map.empty
            = fold (?f (map fst bs) (map Some (map snd bs))) [0..<?k] Map.empty"
    by (rule fold_cong) (auto simp: nth_append capture_at_def)
  have "assign_params (map fst (bs @ [b])) (map Some (map snd (bs @ [b])))
      = set_prop (assign_params (map fst bs) (map Some (map snd bs))) n (Some v)"
    unfolding assign_params_def using same
    by (simp add: b nth_append capture_at_def)
  also have "\<dots> = (bind_all bs)(n \<mapsto> Some v)"
  proof -
    from snoc.prems have np: "n \<noteq> ''__proto__''" and "''__proto__'' \<notin> set (map fst bs)"
      by (auto simp: b)
    from snoc.IH[OF this(2)] np show ?thesis
      by (simp add: set_prop_def)
  qed
  finally show ?case
    by (simp add: b bind_all_snoc)
qed

subsection \<open>The matcher refines the reference matcher\<close>

lemma rx_parse_anchored: "rx_parse (CHR ''^'' # src @ ''$'') = rx_items src"
  by (simp add: rx_parse_def)

text \<open>
  Claim C1, amended. For every pattern each of whose segments is either \<open>:name\<close>, with
  a non-empty name other than \<open>__proto__\<close>, or a literal segment that has no syntax
  character of the regular expression language and no colon except as its last
  character, and for every path and every platform engine, \<open>_matchRoute\<close> returns what
  the reference segment matcher returns: a named segment captures exactly one non-empty
  run of characters without a slash, every other segment is matched literally, pattern
  and path must agree from start to end, the names are bound to the captured segments
  from left to right, and the result is \<open>null\<close> on any mismatch.
\<close>

theorem matchRoute_refines_reference:
  assumes "segment_pattern pattern"
  shows "matchRoute ext pattern path = Inr (reference_match pattern path)"
proof -
  let ?segs = "split_slash pattern"
  from compile_pattern[OF assms]
  have items: "rx_items (regexPattern pattern) = Some (segs_items ?segs)"
    and names: "paramNames pattern = map tl (filter named_segment ?segs)"
    by simp_all
  have "list_all (list_all non_slash) ?segs"
    unfolding list_all_iff[of _ ?segs] using split_slash_segments by blast
  then have run: "rx_match (segs_items ?segs) path
      = map_option (map snd) (match_segments ?segs (split_slash path))"
    by (rule match_by_segments) simp
  show ?thesis
  proof (cases "match_segments ?segs (split_slash path)")
    case None
    with run items show ?thesis
      by (simp add: matchRoute_def RegExp_match_def rx_parse_anchored reference_match_def)
  next
    case (Some bs)
    from match_segments_names[OF Some] names have n: "paramNames pattern = map fst bs"
      by simp
    have "''__proto__'' \<notin> set (map tl (filter named_segment ?segs))"
      using assms by (auto simp: segment_pattern_def list_all_iff)
    then have "''__proto__'' \<notin> set (map fst bs)"
      using match_segments_names[OF Some] by simp
    from assign_params_bind[OF this] Some run items n show ?thesis
      by (simp add: matchRoute_def RegExp_match_def rx_parse_anchored reference_match_def)
  qed
qed

text \<open>
  The four matches of the specification: \<open>/static\<close> matches \<open>/static\<close> with no
  parameters and does not match \<open>/static/extra\<close>; \<open>/a/:b/c/:d\<close> on \<open>/a/x/c/y\<close> gives
  \<open>{b: "x", d: "y"}\<close>; \<open>/users/:id\<close> does not match \<open>/posts/123\<close>.
\<close>

theorem matchRoute_refines_reference_witness:
  "matchRoute sample_engine ''/static'' ''/static'' = Inr (Some Map.empty)
   \<and> matchRoute sample_engine ''/static'' ''/static/extra'' = Inr None
   \<and> matchRoute sample_engine ''/a/:b/c/:d'' ''/a/x/c/y''
       = Inr (Some [''b'' \<mapsto> Some ''x'', ''d'' \<mapsto> Some ''y''])
   \<and> matchRoute sample_engine ''/users/:id'' ''/posts/123'' = Inr None"
proof -
  have wf: "segment_pattern ''/static''" "segment_pattern ''/a/:b/c/:d''"
    "segment_pattern ''/users/:id''"
    by (simp_all add: segment_pattern_def named_segment_def literal_segment_def slash_def
          colon_def syntax_char_def)
  have ref: "reference_match ''/static'' ''/static'' = Some Map.empty"
    "reference_match ''/static'' ''/static/extra'' = None"
    "reference_match ''/a/:b/c/:d'' ''/a/x/c/y'' = Some [''b'' \<mapsto> Some ''x'', ''d'' \<mapsto> Some ''y'']"
    "reference_match ''/users/:id'' ''/posts/123'' = None"
    by (simp_all add: reference_match_def bind_all_def named_segment_def slash_def colon_def)
  show ?thesis
    using matchRoute_refines_reference[OF wf(1), of sample_engine "''/static''"]
      matchRoute_refines_reference[OF wf(1), of sample_engine "''/static/extra''"]
      matchRoute_refines_reference[OF wf(2), of sample_engine "''/a/x/c/y''"]
      matchRoute_refines_reference[OF wf(3), of sample_engine "''/posts/123''"]
    by (simp only: ref)
qed

text \<open>
  Claim C1 as it is worded, for every pattern, fails. The pattern text goes to the
  \<open>RegExp\<close> constructor as it is: the literal pattern \<open>/a.b\<close> matches the path
  \<open>/axb\<close>, which the reference matcher refuses. And a colon inside a segment starts a
  capture: \<open>/a:b\<close>, one literal segment for the reference matcher, matches \<open>/a:b\<close>
  with \<open>{b: ":b"}\<close> instead of no parameters.
\<close>

theorem matchRoute_literal_counterexample:
  "matchRoute sample_engine ''/a.b'' ''/axb'' = Inr (Some Map.empty)
   \<and> reference_match ''/a.b'' ''/axb'' = None
   \<and> matchRoute sample_engine ''/a:b'' ''/a:b'' = Inr (Some [''b'' \<mapsto> Some '':b''])
   \<and> reference_match ''/a:b'' ''/a:b'' = Some Map.empty"
  by (simp add: matcher_defs reference_match_def bind_all_def named_segment_def)

end
